theory Spec2Isabelle
  imports Main "HOL-Library.AList"
begin

section \<open>Data model\<close>

text \<open>
  The network controller keeps one provider configuration, a registry of custom network
  configurations and the status of the current network. Values whose shape the source
  only knows at run time (\<open>unknown\<close> in the source) are kept as \<open>JsValue\<close>.
  A number other than \<open>NaN\<close> is kept as the text a template literal renders for
  it, which is all the controller does with a number besides comparing two of them; two
  such numbers are strictly equal exactly when their texts are the same.
\<close>

datatype JsValue = JsNumber string | JsNaN | JsString string | JsUndefined | JsOther

text \<open>The value \<open>JSON.parse\<close> returns, as far as the controller looks at it.\<close>

datatype Json = JsonObject "(string \<times> Json) list" | JsonString string | JsonOther

text \<open>
  What the controller calls and this theory does not define: \<open>JSON.parse\<close>
  (\<open>None\<close> is a syntax error); the text of \<open>`${convertHexToDecimal(v)}`\<close> for a
  strict hex string \<open>v\<close>, that is \<open>parseInt(v, 16)\<close> as a double, rendered;
  \<open>String.prototype.toLowerCase\<close>; and whether \<open>new URL(u)\<close> succeeds.
\<close>

record Library =
  JSON_parse :: "string \<Rightarrow> Json option"
  hexToDecimalText :: "string \<Rightarrow> string"
  toLowerCase :: "string \<Rightarrow> string"
  isValidURL :: "string \<Rightarrow> bool"

text \<open>
  \<open>NetworkType\<close> of the source has the members \<open>mainnet\<close>, \<open>goerli\<close>, \<open>sepolia\<close>
  and \<open>rpc\<close>; \<open>other_type\<close> stands for any other run-time value, which the
  \<open>default\<close> branch of \<open>#configureProvider\<close> rejects.
\<close>

datatype NetworkType = mainnet | goerli | sepolia | rpc | other_type string

datatype NetworkStatus = Unknown | Available | Unavailable | Blocked

text \<open>\<open>rpcPrefs\<close> is an object with the single field \<open>blockExplorerUrl\<close>.\<close>

type_synonym RpcPrefs = "string option"

text \<open>
  \<open>ProviderConfig\<close>. The declared type makes \<open>chainId\<close> mandatory, but
  \<open>#configureProvider\<close> takes \<open>Hex | undefined\<close> and guards against its absence, so
  the field is optional here. Field names carry the prefix \<open>pc_\<close> since
  \<open>NetworkConfiguration\<close> has fields of the same names.
\<close>

record ProviderConfig =
  pc_rpcUrl :: "string option"
  pc_type :: NetworkType
  pc_chainId :: "string option"
  pc_ticker :: "string option"
  pc_nickname :: "string option"
  pc_rpcPrefs :: "RpcPrefs option"
  pc_id :: "string option"

text \<open>
  \<open>NetworkConfiguration & { id: string }\<close>, an entry of the registry. The checks
  \<open>!rpcUrl\<close>, \<open>!ticker\<close> and \<open>rpcUrl?.toLowerCase()\<close> of the source allow for
  absent fields, so \<open>rpcUrl\<close>, \<open>chainId\<close> and \<open>ticker\<close> are optional here.
\<close>

record NetworkConfiguration =
  nc_rpcUrl :: "string option"
  nc_chainId :: "string option"
  nc_ticker :: "string option"
  nc_nickname :: "string option"
  nc_rpcPrefs :: "RpcPrefs option"
  nc_id :: string

record NetworkDetails =
  EIPS :: "nat \<rightharpoonup> bool"

text \<open>
  \<open>NetworkState\<close>. The registry \<open>networkConfigurations\<close> is an object used as a
  dictionary; it is an association list in insertion order, which is the order
  \<open>Object.values\<close> enumerates.
\<close>

record NetworkState =
  networkId :: "string option"
  networkStatus :: NetworkStatus
  providerConfig :: ProviderConfig
  networkDetails :: NetworkDetails
  networkConfigurations :: "(string \<times> NetworkConfiguration) list"

text \<open>\<open>Partial<NetworkState>\<close>: every top-level field may be left out.\<close>

record PartialNetworkState =
  ps_networkId :: "string option option"
  ps_networkStatus :: "NetworkStatus option"
  ps_providerConfig :: "ProviderConfig option"
  ps_networkDetails :: "NetworkDetails option"
  ps_networkConfigurations :: "(string \<times> NetworkConfiguration) list option"

text \<open>The argument of \<open>createNetworkClient\<close>; it stands for the client built from it.\<close>

datatype NetworkClient =
    InfuraClient NetworkType string
  | CustomClient string string

datatype Event = networkWillChange | networkDidChange | infuraIsBlocked | infuraIsUnblocked

datatype RpcMethod = net_version | eth_getBlockByNumber

record MetaMetricsEventPayload =
  mm_event :: string
  mm_category :: string
  mm_referrer :: string
  mm_chain_id :: string
  mm_symbol :: string
  mm_source :: string

text \<open>
  What the controller does to its collaborators, in the order it does it. \<open>Publish\<close>
  carries the state a subscriber reads while the event is dispatched; \<open>StateChange\<close>
  is a call of \<open>this.update\<close> and carries the new state.
\<close>

datatype Action =
    Publish Event NetworkState
  | StateChange NetworkState
  | CreateNetworkClient NetworkClient
  | SetTarget NetworkClient
  | SendAsync RpcMethod
  | TrackMetaMetricsEvent MetaMetricsEventPayload

text \<open>
  An error value as \<open>catch\<close> sees it: an object, with or without the properties
  \<open>code\<close> and \<open>message\<close>, or a value that is not an object.
\<close>

datatype JsError =
    ErrorObject (err_code: "JsValue option") (err_message: "JsValue option")
  | NonObjectError JsValue

datatype Error =
    InvalidInfuraProjectId
  | ChainIdRequired
  | RpcUrlRequired
  | UnrecognizedNetworkType
  | AssertionError
  | NoSuchNetworkConfiguration string
  | NotStrictHexString
  | UnsafeChainId
  | RpcUrlMissing
  | ReferrerAndSourceRequired
  | InvalidRpcUrl
  | TickerRequired
  | Rejected JsError

text \<open>
  The controller object. \<open>ethQuery\<close> tells whether \<open>#ethQuery\<close> is set (it wraps the
  provider proxy, so it always reaches the proxy's current target). \<open>trace\<close> records the
  actions. \<open>subscribers\<close> are the listeners of \<open>networkDidChange\<close> in the messenger,
  by the number of the \<open>lookupNetwork\<close> call that created them; \<open>networkChanged i\<close>
  is the local variable \<open>networkChanged\<close> of call \<open>i\<close>, and \<open>nextListener\<close>
  numbers the calls.
\<close>

record NetworkController =
  state :: NetworkState
  ethQuery :: bool
  infuraProjectId :: string
  previousProviderConfig :: ProviderConfig
  providerProxy :: "NetworkClient option"
  blockTrackerProxy :: "NetworkClient option"
  trace :: "Action list"
  subscribers :: "nat list"
  networkChanged :: "nat \<Rightarrow> bool"
  nextListener :: nat

record NetworkControllerOptions =
  opt_state :: "PartialNetworkState option"
  opt_infuraProjectId :: JsValue

text \<open>A call that throws still keeps the mutations made before the throw.\<close>

type_synonym 'a outcome = "(Error + 'a) \<times> NetworkController"

section \<open>Constants of \<open>@metamask/controller-utils\<close>\<close>

text \<open>
  \<open>ChainId\<close>, \<open>NetworksTicker\<close> and \<open>BUILT_IN_NETWORKS\<close> for the three Infura
  networks, with the values the test suite's \<open>INFURA_NETWORKS\<close> table expects.
\<close>

fun ChainId :: "NetworkType \<Rightarrow> string" where
  "ChainId mainnet = ''0x1''"
| "ChainId goerli = ''0x5''"
| "ChainId sepolia = ''0xaa36a7''"
| "ChainId _ = ''''"

fun NetworksTicker :: "NetworkType \<Rightarrow> string" where
  "NetworksTicker mainnet = ''ETH''"
| "NetworksTicker goerli = ''GoerliETH''"
| "NetworksTicker sepolia = ''SepoliaETH''"
| "NetworksTicker _ = ''''"

fun BUILT_IN_NETWORKS_rpcPrefs :: "NetworkType \<Rightarrow> RpcPrefs option" where
  "BUILT_IN_NETWORKS_rpcPrefs mainnet = Some (Some ''https://etherscan.io'')"
| "BUILT_IN_NETWORKS_rpcPrefs goerli = Some (Some ''https://goerli.etherscan.io'')"
| "BUILT_IN_NETWORKS_rpcPrefs sepolia = Some (Some ''https://sepolia.etherscan.io'')"
| "BUILT_IN_NETWORKS_rpcPrefs _ = None"

fun isInfuraProviderType :: "NetworkType \<Rightarrow> bool" where
  "isInfuraProviderType mainnet = True"
| "isInfuraProviderType goerli = True"
| "isInfuraProviderType sepolia = True"
| "isInfuraProviderType _ = False"

section \<open>Construction\<close>

definition defaultState :: NetworkState where
  "defaultState =
     \<lparr> networkId = None,
       networkStatus = Unknown,
       providerConfig =
         \<lparr> pc_rpcUrl = None, pc_type = mainnet, pc_chainId = Some (ChainId mainnet),
           pc_ticker = None, pc_nickname = None, pc_rpcPrefs = None, pc_id = None \<rparr>,
       networkDetails = \<lparr> EIPS = Map.empty \<rparr>,
       networkConfigurations = [] \<rparr>"

text \<open>One property of \<open>{ ...defaultState, ...state }\<close>: the given one wins when present.\<close>

definition spread :: "'a \<Rightarrow> 'a option \<Rightarrow> 'a" where
  "spread d given = (case given of None \<Rightarrow> d | Some v \<Rightarrow> v)"

definition initialState :: "PartialNetworkState option \<Rightarrow> NetworkState" where
  "initialState given =
     (case given of
        None \<Rightarrow> defaultState
      | Some s \<Rightarrow>
          \<lparr> networkId = spread (networkId defaultState) (ps_networkId s),
            networkStatus = spread (networkStatus defaultState) (ps_networkStatus s),
            providerConfig = spread (providerConfig defaultState) (ps_providerConfig s),
            networkDetails = spread (networkDetails defaultState) (ps_networkDetails s),
            networkConfigurations =
              spread (networkConfigurations defaultState) (ps_networkConfigurations s) \<rparr>)"

text \<open>
  The constructor. The state is merged by the call of \<open>super\<close>, before the project id is
  checked; \<open>!infuraProjectId || typeof infuraProjectId !== 'string'\<close> accepts a non-empty
  string only.
\<close>

definition validInfuraProjectId :: "JsValue \<Rightarrow> string option" where
  "validInfuraProjectId v = (case v of JsString s \<Rightarrow> (if s = [] then None else Some s) | _ \<Rightarrow> None)"

definition new_NetworkController :: "NetworkControllerOptions \<Rightarrow> Error + NetworkController" where
  "new_NetworkController opts =
     (let st = initialState (opt_state opts) in
      case validInfuraProjectId (opt_infuraProjectId opts) of
        None \<Rightarrow> Inl InvalidInfuraProjectId
      | Some pid \<Rightarrow>
          Inr \<lparr> state = st, ethQuery = False, infuraProjectId = pid,
                previousProviderConfig = providerConfig st,
                providerProxy = None, blockTrackerProxy = None,
                trace = [], subscribers = [], networkChanged = (\<lambda>_. False),
                nextListener = 0 \<rparr>)"

section \<open>Messenger and state updates\<close>

definition update :: "(NetworkState \<Rightarrow> NetworkState) \<Rightarrow> NetworkController \<Rightarrow> NetworkController" where
  "update f c = (let s = f (state c) in c\<lparr> state := s, trace := trace c @ [StateChange s] \<rparr>)"

text \<open>
  The \<open>listener\<close> closure of call \<open>i\<close> of \<open>lookupNetwork\<close>: it sets the call's
  \<open>networkChanged\<close> and unsubscribes itself.
\<close>

definition listener :: "nat \<Rightarrow> NetworkController \<Rightarrow> NetworkController" where
  "listener i c =
     c\<lparr> networkChanged := (networkChanged c)(i := True),
        subscribers := removeAll i (subscribers c) \<rparr>"

text \<open>
  \<open>messagingSystem.publish\<close>: only \<open>networkDidChange\<close> has listeners inside the
  controller; they run in subscription order, synchronously.
\<close>

definition publish :: "Event \<Rightarrow> NetworkController \<Rightarrow> NetworkController" where
  "publish e c =
     (let c1 = c\<lparr> trace := trace c @ [Publish e (state c)] \<rparr> in
      if e = networkDidChange then fold listener (subscribers c1) c1 else c1)"

section \<open>Providers\<close>

definition registerProvider :: "NetworkController \<Rightarrow> NetworkController" where
  "registerProvider c = (if providerProxy c \<noteq> None then c\<lparr> ethQuery := True \<rparr> else c)"

text \<open>
  \<open>#setProviderAndBlockTracker\<close> creates each proxy on first use and retargets it
  afterwards; either way both proxies then lead to the new client.
\<close>

definition setProviderAndBlockTracker :: "NetworkClient \<Rightarrow> NetworkController \<Rightarrow> NetworkController" where
  "setProviderAndBlockTracker cl c =
     c\<lparr> providerProxy := Some cl, blockTrackerProxy := Some cl,
        trace := trace c @ [SetTarget cl] \<rparr>"

definition updateProvider :: "NetworkClient \<Rightarrow> NetworkController \<Rightarrow> NetworkController" where
  "updateProvider cl c = registerProvider (setProviderAndBlockTracker cl c)"

definition createNetworkClient :: "NetworkClient \<Rightarrow> NetworkController \<Rightarrow> NetworkController" where
  "createNetworkClient cl c = c\<lparr> trace := trace c @ [CreateNetworkClient cl] \<rparr>"

definition setupInfuraProvider :: "NetworkType \<Rightarrow> NetworkController \<Rightarrow> NetworkController" where
  "setupInfuraProvider ty c =
     (let cl = InfuraClient ty (infuraProjectId c) in updateProvider cl (createNetworkClient cl c))"

definition setupStandardProvider :: "string \<Rightarrow> string \<Rightarrow> NetworkController \<Rightarrow> NetworkController" where
  "setupStandardProvider url cid c =
     (let cl = CustomClient cid url in updateProvider cl (createNetworkClient cl c))"

definition configureProvider ::
  "NetworkType \<Rightarrow> string option \<Rightarrow> string option \<Rightarrow> NetworkController \<Rightarrow> unit outcome" where
  "configureProvider ty url cid c =
     (case ty of
        mainnet \<Rightarrow> (Inr (), setupInfuraProvider ty c)
      | goerli \<Rightarrow> (Inr (), setupInfuraProvider ty c)
      | sepolia \<Rightarrow> (Inr (), setupInfuraProvider ty c)
      | rpc \<Rightarrow>
          (case cid of
             None \<Rightarrow> (Inl ChainIdRequired, c)
           | Some ch \<Rightarrow>
               (case url of
                  None \<Rightarrow> (Inl RpcUrlRequired, c)
                | Some u \<Rightarrow> (Inr (), setupStandardProvider u ch c)))
      | other_type _ \<Rightarrow> (Inl UnrecognizedNetworkType, c))"

section \<open>The refresh sequence and the status probe\<close>

subsection \<open>Reading the network id\<close>

definition isDigit :: "char \<Rightarrow> bool" where
  "isDigit ch = (ch \<in> set ''0123456789'')"

definition hexDigitValue :: "char \<Rightarrow> nat option" where
  "hexDigitValue ch =
     map_of (zip ''0123456789abcdefABCDEF''
               [0, 1, 2, 3, 4, 5, 6, 7, 8, 9, 10, 11, 12, 13, 14, 15, 10, 11, 12, 13, 14, 15]) ch"

text \<open>\<open>isStrictHexString\<close> of \<open>@metamask/utils\<close>: the pattern \<open>/^0x[0-9a-f]+$/iu\<close>.\<close>

definition isStrictHexString :: "string \<Rightarrow> bool" where
  "isStrictHexString s =
     (case s of
        a # b # ds \<Rightarrow>
          a = CHR ''0'' \<and> (b = CHR ''x'' \<or> b = CHR ''X'') \<and> ds \<noteq> [] \<and>
          list_all (\<lambda>d. hexDigitValue d \<noteq> None) ds
      | _ \<Rightarrow> False)"

definition hexToNat :: "string \<Rightarrow> nat" where
  "hexToNat s =
     foldl (\<lambda>acc d. 16 * acc + (case hexDigitValue d of Some v \<Rightarrow> v | None \<Rightarrow> 0)) 0 (drop 2 s)"

text \<open>
  \<open>convertNetworkId\<close>. The error is the plain \<open>Error\<close> the source throws: it
  has a message (whose text, which quotes the value, is cut short here) and no
  \<open>code\<close>.
\<close>

definition invalidNetworkIdError :: JsError where
  "invalidNetworkIdError =
     ErrorObject None (Some (JsString ''Cannot parse as a valid network ID''))"

definition convertNetworkId :: "Library \<Rightarrow> JsValue \<Rightarrow> JsError + string" where
  "convertNetworkId lib v =
     (case v of
        JsNumber text \<Rightarrow> Inr text
      | JsString s \<Rightarrow>
          (if isStrictHexString s then Inr (hexToDecimalText lib s)
           else if s \<noteq> [] \<and> list_all isDigit s then Inr s
           else Inl invalidNetworkIdError)
      | _ \<Rightarrow> Inl invalidNetworkIdError)"

fun isErrorWithCode :: "JsError \<Rightarrow> bool" where
  "isErrorWithCode (ErrorObject (Some _) _) = True"
| "isErrorWithCode _ = False"

subsection \<open>The two requests\<close>

record Block =
  baseFeePerGas :: "string option"

text \<open>
  What the network answers to the two requests of one probe, and which of the two
  settles first (it decides which rejection \<open>Promise.all\<close> reports when both fail).
\<close>

record Responses =
  net_version_response :: "JsError + JsValue"
  latest_block_response :: "JsError + Block option"
  block_settles_first :: bool

definition getNetworkId :: "Library \<Rightarrow> JsError + JsValue \<Rightarrow> JsError + string" where
  "getNetworkId lib r = (case r of Inl e \<Rightarrow> Inl e | Inr v \<Rightarrow> convertNetworkId lib v)"

definition determineEIP1559Compatibility :: "JsError + Block option \<Rightarrow> JsError + bool" where
  "determineEIP1559Compatibility r =
     (case r of
        Inl e \<Rightarrow> Inl e
      | Inr None \<Rightarrow> Inr False
      | Inr (Some blk) \<Rightarrow> Inr (baseFeePerGas blk \<noteq> None))"

definition promiseAll :: "Library \<Rightarrow> Responses \<Rightarrow> JsError + (string \<times> bool)" where
  "promiseAll lib resp =
     (case (getNetworkId lib (net_version_response resp),
            determineEIP1559Compatibility (latest_block_response resp)) of
        (Inr i, Inr b) \<Rightarrow> Inr (i, b)
      | (Inl e, Inr _) \<Rightarrow> Inl e
      | (Inr _, Inl e) \<Rightarrow> Inl e
      | (Inl e1, Inl e2) \<Rightarrow> (if block_settles_first resp then Inl e2 else Inl e1))"

subsection \<open>Classifying a failure\<close>

text \<open>\<open>errorCodes.rpc.internal\<close> of \<open>eth-rpc-errors\<close>.\<close>

definition errorCodes_rpc_internal :: string where
  "errorCodes_rpc_internal = ''-32603''"

definition INFURA_BLOCKED_KEY :: string where
  "INFURA_BLOCKED_KEY = ''countryBlocked''"

fun isBlockedBody :: "Json option \<Rightarrow> bool" where
  "isBlockedBody (Some (JsonObject fs)) = (map_of fs ''error'' = Some (JsonString INFURA_BLOCKED_KEY))"
| "isBlockedBody _ = False"

text \<open>
  The \<open>catch\<close> block of \<open>lookupNetwork\<close>: \<open>responseBody\<close> is the parsed message,
  read only on an Infura network and only when the message is a string.
\<close>

definition responseBody :: "Library \<Rightarrow> bool \<Rightarrow> JsValue option \<Rightarrow> Json option" where
  "responseBody lib isInfura message =
     (if isInfura then
        (case message of Some (JsString m) \<Rightarrow> JSON_parse lib m | _ \<Rightarrow> None)
      else None)"

definition failureStatus :: "Library \<Rightarrow> bool \<Rightarrow> JsError \<Rightarrow> NetworkStatus" where
  "failureStatus lib isInfura error =
     (case error of
        ErrorObject (Some code) message \<Rightarrow>
          (if isBlockedBody (responseBody lib isInfura message) then Blocked
           else if code = JsNumber errorCodes_rpc_internal then Unknown
           else Unavailable)
      | _ \<Rightarrow> Unknown)"

text \<open>
  The \<open>try\<close> statement of \<open>lookupNetwork\<close>: the values of \<open>updatedNetworkStatus\<close>,
  \<open>updatedNetworkId\<close> and \<open>updatedIsEIP1559Compatible\<close> after it.
\<close>

definition lookupOutcome ::
  "Library \<Rightarrow> bool \<Rightarrow> Responses \<Rightarrow> NetworkStatus \<times> string option \<times> bool option" where
  "lookupOutcome lib isInfura resp =
     (case promiseAll lib resp of
        Inr (i, b) \<Rightarrow> (Available, Some i, Some b)
      | Inl error \<Rightarrow> (failureStatus lib isInfura error, None, None))"

subsection \<open>\<open>lookupNetwork\<close>\<close>

text \<open>
  An asynchronous function is split where it awaits: \<open>f_begin\<close> runs up to the
  \<open>await\<close>, \<open>f_resume\<close> runs from there when the awaited promise settles, and other
  calls may run in between. \<open>Probe\<close> holds the locals of a suspended \<open>lookupNetwork\<close>.
\<close>

record Probe =
  probe_id :: nat
  isInfura :: bool

definition lookupNetwork_begin :: "NetworkController \<Rightarrow> Probe option \<times> NetworkController" where
  "lookupNetwork_begin c =
     (if \<not> ethQuery c then (None, c)
      else
        let i = nextListener c;
            p = \<lparr> probe_id = i,
                  isInfura = isInfuraProviderType (pc_type (providerConfig (state c))) \<rparr>
        in (Some p,
            c\<lparr> nextListener := Suc i,
               networkChanged := (networkChanged c)(i := False),
               subscribers := subscribers c @ [i],
               trace := trace c @ [SendAsync net_version, SendAsync eth_getBlockByNumber] \<rparr>))"

definition commitLookup ::
  "string option \<Rightarrow> NetworkStatus \<Rightarrow> bool option \<Rightarrow> NetworkState \<Rightarrow> NetworkState" where
  "commitLookup updatedNetworkId updatedNetworkStatus updatedIsEIP1559Compatible s =
     s\<lparr> networkId := updatedNetworkId,
        networkStatus := updatedNetworkStatus,
        networkDetails :=
          \<lparr> EIPS = (EIPS (networkDetails s))(1559 := updatedIsEIP1559Compatible) \<rparr> \<rparr>"

definition lookupNetwork_resume ::
  "Library \<Rightarrow> Probe \<Rightarrow> Responses \<Rightarrow> NetworkController \<Rightarrow> NetworkController" where
  "lookupNetwork_resume lib p resp c =
     (let (updatedNetworkStatus, updatedNetworkId, updatedIsEIP1559Compatible) =
            lookupOutcome lib (isInfura p) resp
      in if networkChanged c (probe_id p) then c
         else
           let c1 = c\<lparr> subscribers := removeAll (probe_id p) (subscribers c) \<rparr>;
               c2 = update (commitLookup updatedNetworkId updatedNetworkStatus
                              updatedIsEIP1559Compatible) c1
           in if isInfura p then
                (if updatedNetworkStatus = Available then publish infuraIsUnblocked c2
                 else if updatedNetworkStatus = Blocked then publish infuraIsBlocked c2
                 else c2)
              else publish infuraIsUnblocked c2)"

subsection \<open>\<open>#refreshNetwork\<close>\<close>

definition resetNetwork :: "NetworkState \<Rightarrow> NetworkState" where
  "resetNetwork s =
     s\<lparr> networkId := None, networkStatus := Unknown, networkDetails := \<lparr> EIPS = Map.empty \<rparr> \<rparr>"

definition refreshNetwork_begin :: "NetworkController \<Rightarrow> Probe option outcome" where
  "refreshNetwork_begin c =
     (let c1 = publish networkWillChange c;
          c2 = update resetNetwork c1;
          pc = providerConfig (state c2)
      in case configureProvider (pc_type pc) (pc_rpcUrl pc) (pc_chainId pc) c2 of
           (Inl e, c3) \<Rightarrow> (Inl e, c3)
         | (Inr _, c3) \<Rightarrow>
             (case lookupNetwork_begin (publish networkDidChange c3) of
                (p, c4) \<Rightarrow> (Inr p, c4)))"

text \<open>The caller's \<open>await this.lookupNetwork()\<close>, once the probe's requests have settled.\<close>

definition await_lookup ::
  "Library \<Rightarrow> Responses \<Rightarrow> Probe option outcome \<Rightarrow> unit outcome" where
  "await_lookup lib resp r =
     (case r of
        (Inl e, c) \<Rightarrow> (Inl e, c)
      | (Inr None, c) \<Rightarrow> (Inr (), c)
      | (Inr (Some p), c) \<Rightarrow> (Inr (), lookupNetwork_resume lib p resp c))"

definition initializeProvider_begin :: "NetworkController \<Rightarrow> Probe option outcome" where
  "initializeProvider_begin c =
     (let pc = providerConfig (state c)
      in case configureProvider (pc_type pc) (pc_rpcUrl pc) (pc_chainId pc) c of
           (Inl e, c1) \<Rightarrow> (Inl e, c1)
         | (Inr _, c1) \<Rightarrow>
             (case lookupNetwork_begin (registerProvider c1) of (p, c2) \<Rightarrow> (Inr p, c2)))"

section \<open>Switching, resetting and rolling back\<close>

definition setProviderType_begin :: "NetworkType \<Rightarrow> NetworkController \<Rightarrow> Probe option outcome" where
  "setProviderType_begin ty c =
     (if ty = rpc then (Inl AssertionError, c)
      else if \<not> isInfuraProviderType ty then (Inl AssertionError, c)
      else
        let c1 = c\<lparr> previousProviderConfig := providerConfig (state c) \<rparr>;
            ticker = (if NetworksTicker ty \<noteq> [] then NetworksTicker ty else ''ETH'');
            c2 = update (\<lambda>s. s\<lparr> providerConfig :=
                   (providerConfig s)
                     \<lparr> pc_type := ty,
                       pc_ticker := Some ticker,
                       pc_chainId := Some (ChainId ty),
                       pc_rpcPrefs := BUILT_IN_NETWORKS_rpcPrefs ty,
                       pc_rpcUrl := None,
                       pc_nickname := None,
                       pc_id := None \<rparr> \<rparr>) c1
        in refreshNetwork_begin c2)"

text \<open>
  The property access \<open>networkConfigurations[id]\<close>. The registry is a plain object,
  so a name that is not one of its keys still finds what \<open>Object.prototype\<close> has
  under that name: a function, or the prototype itself for \<open>__proto__\<close>. Such a
  value is truthy and has none of the fields of a network configuration.
\<close>

definition objectPrototypeProperties :: "string list" where
  "objectPrototypeProperties =
     [''constructor'', ''__defineGetter__'', ''__defineSetter__'', ''hasOwnProperty'',
      ''__lookupGetter__'', ''__lookupSetter__'', ''isPrototypeOf'', ''propertyIsEnumerable'',
      ''toString'', ''valueOf'', ''__proto__'', ''toLocaleString'']"

datatype Property = Own NetworkConfiguration | Inherited | NoProperty

definition getProperty :: "(string \<times> NetworkConfiguration) list \<Rightarrow> string \<Rightarrow> Property" where
  "getProperty configs name =
     (case map_of configs name of
        Some networkConfiguration \<Rightarrow> Own networkConfiguration
      | None \<Rightarrow> (if name \<in> set objectPrototypeProperties then Inherited else NoProperty))"

text \<open>
  \<open>setActiveNetwork\<close>. With an inherited property as \<open>targetNetwork\<close> every field
  it copies is \<open>undefined\<close>.
\<close>

definition setActiveNetwork_begin :: "string \<Rightarrow> NetworkController \<Rightarrow> Probe option outcome" where
  "setActiveNetwork_begin networkConfigurationId c =
     (let c1 = c\<lparr> previousProviderConfig := providerConfig (state c) \<rparr>
      in case getProperty (networkConfigurations (state c1)) networkConfigurationId of
           NoProperty \<Rightarrow> (Inl (NoSuchNetworkConfiguration networkConfigurationId), c1)
         | Own targetNetwork \<Rightarrow>
             (let c2 = update (\<lambda>s. s\<lparr> providerConfig :=
                         (providerConfig s)
                           \<lparr> pc_type := rpc,
                             pc_rpcUrl := nc_rpcUrl targetNetwork,
                             pc_chainId := nc_chainId targetNetwork,
                             pc_ticker := nc_ticker targetNetwork,
                             pc_nickname := nc_nickname targetNetwork,
                             pc_rpcPrefs := nc_rpcPrefs targetNetwork,
                             pc_id := Some (nc_id targetNetwork) \<rparr> \<rparr>) c1
              in refreshNetwork_begin c2)
         | Inherited \<Rightarrow>
             (let c2 = update (\<lambda>s. s\<lparr> providerConfig :=
                         (providerConfig s)
                           \<lparr> pc_type := rpc,
                             pc_rpcUrl := None,
                             pc_chainId := None,
                             pc_ticker := None,
                             pc_nickname := None,
                             pc_rpcPrefs := None,
                             pc_id := None \<rparr> \<rparr>) c1
              in refreshNetwork_begin c2))"

definition resetConnection_begin :: "NetworkController \<Rightarrow> Probe option outcome" where
  "resetConnection_begin c = refreshNetwork_begin c"

definition rollbackToPreviousProvider_begin :: "NetworkController \<Rightarrow> Probe option outcome" where
  "rollbackToPreviousProvider_begin c =
     refreshNetwork_begin
       (update (\<lambda>s. s\<lparr> providerConfig := previousProviderConfig c \<rparr>) c)"

text \<open>
  The same operations run to completion with nothing else in between: the probe they
  await settles with the responses \<open>resp\<close>.
\<close>

definition lookupNetwork ::
  "Library \<Rightarrow> Responses \<Rightarrow> NetworkController \<Rightarrow> NetworkController" where
  "lookupNetwork lib resp c =
     (case lookupNetwork_begin c of
        (None, c1) \<Rightarrow> c1
      | (Some p, c1) \<Rightarrow> lookupNetwork_resume lib p resp c1)"

definition setProviderType ::
  "Library \<Rightarrow> Responses \<Rightarrow> NetworkType \<Rightarrow> NetworkController \<Rightarrow> unit outcome" where
  "setProviderType lib resp ty c = await_lookup lib resp (setProviderType_begin ty c)"

definition setActiveNetwork ::
  "Library \<Rightarrow> Responses \<Rightarrow> string \<Rightarrow> NetworkController \<Rightarrow> unit outcome" where
  "setActiveNetwork lib resp networkConfigurationId c =
     await_lookup lib resp (setActiveNetwork_begin networkConfigurationId c)"

definition resetConnection ::
  "Library \<Rightarrow> Responses \<Rightarrow> NetworkController \<Rightarrow> unit outcome" where
  "resetConnection lib resp c = await_lookup lib resp (resetConnection_begin c)"

definition rollbackToPreviousProvider ::
  "Library \<Rightarrow> Responses \<Rightarrow> NetworkController \<Rightarrow> unit outcome" where
  "rollbackToPreviousProvider lib resp c =
     await_lookup lib resp (rollbackToPreviousProvider_begin c)"

section \<open>EIP-1559 compatibility\<close>

text \<open>
  \<open>getEIP1559Compatibility\<close>: \<open>Some b\<close> when the call returns \<open>b\<close> at once, \<open>None\<close>
  when it has sent its request and awaits the block.
\<close>

definition getEIP1559Compatibility_begin :: "NetworkController \<Rightarrow> bool option \<times> NetworkController" where
  "getEIP1559Compatibility_begin c =
     (case EIPS (networkDetails (state c)) 1559 of
        Some b \<Rightarrow> (Some b, c)
      | None \<Rightarrow>
          (if \<not> ethQuery c then (Some False, c)
           else (None, c\<lparr> trace := trace c @ [SendAsync eth_getBlockByNumber] \<rparr>)))"

definition getEIP1559Compatibility_resume ::
  "JsError + Block option \<Rightarrow> NetworkController \<Rightarrow> bool outcome" where
  "getEIP1559Compatibility_resume r c =
     (case determineEIP1559Compatibility r of
        Inl e \<Rightarrow> (Inl (Rejected e), c)
      | Inr isEIP1559Compatible \<Rightarrow>
          (Inr isEIP1559Compatible,
           update (\<lambda>s. s\<lparr> networkDetails :=
                     \<lparr> EIPS = (EIPS (networkDetails s))(1559 \<mapsto> isEIP1559Compatible) \<rparr> \<rparr>) c))"

definition getEIP1559Compatibility ::
  "JsError + Block option \<Rightarrow> NetworkController \<Rightarrow> bool outcome" where
  "getEIP1559Compatibility r c =
     (case getEIP1559Compatibility_begin c of
        (Some b, c1) \<Rightarrow> (Inr b, c1)
      | (None, c1) \<Rightarrow> getEIP1559Compatibility_resume r c1)"

section \<open>The registry of network configurations\<close>

text \<open>
  \<open>isHexString\<close> of \<open>ethereumjs-util\<close>: the pattern \<open>/^0x[0-9A-Fa-f]*$/\<close>, whose
  prefix is in lower case.
\<close>

definition isHexString :: "string \<Rightarrow> bool" where
  "isHexString s =
     (case s of
        a # b # ds \<Rightarrow>
          a = CHR ''0'' \<and> b = CHR ''x'' \<and> list_all (\<lambda>d. hexDigitValue d \<noteq> None) ds
      | _ \<Rightarrow> False)"

text \<open>
  \<open>isSafeChainId\<close> of \<open>@metamask/controller-utils\<close>: the string passes
  \<open>isHexString\<close>, and the number \<open>parseInt\<close> reads from it (in base 16 for a strict
  hex string; the one other string that passes is \<open>0x\<close>, read as 0) is positive and
  at most \<open>MAX_SAFE_CHAIN_ID\<close>. That bound is below \<open>2^53\<close>, so reading the number
  exactly decides the same.
\<close>

definition MAX_SAFE_CHAIN_ID :: nat where
  "MAX_SAFE_CHAIN_ID = 4503599627370476"

definition isSafeChainId :: "string \<Rightarrow> bool" where
  "isSafeChainId chainId =
     (isHexString chainId \<and>
      (let decimalChainId = (if isStrictHexString chainId then hexToNat chainId else 0)
       in 0 < decimalChainId \<and> decimalChainId \<le> MAX_SAFE_CHAIN_ID))"

record UpsertOptions =
  setActive :: bool
  referrer :: string
  source :: string

text \<open>The entry of the registry whose URL is \<open>rpcUrl\<close> up to letter case, if any.\<close>

definition findByRpcUrl ::
  "Library \<Rightarrow> string \<Rightarrow> (string \<times> NetworkConfiguration) list \<Rightarrow> NetworkConfiguration option" where
  "findByRpcUrl lib rpcUrl configs =
     find (\<lambda>networkConfiguration.
             map_option (toLowerCase lib) (nc_rpcUrl networkConfiguration)
               = Some (toLowerCase lib rpcUrl))
          (map snd configs)"

text \<open>
  \<open>upsertNetworkConfiguration\<close>. \<open>random\<close> is the identifier a call of
  \<open>uuid.v4\<close> returns. The result is the identifier, with the probe of
  \<open>setActiveNetwork\<close> when \<open>setActive\<close> is set.
\<close>

definition upsertNetworkConfiguration_begin ::
  "Library \<Rightarrow> string \<Rightarrow> NetworkConfiguration \<Rightarrow> UpsertOptions \<Rightarrow> NetworkController
     \<Rightarrow> (string \<times> Probe option) outcome" where
  "upsertNetworkConfiguration_begin lib random cfg opts c =
     (case nc_chainId cfg of
        None \<Rightarrow> (Inl NotStrictHexString, c)
      | Some chainId \<Rightarrow>
          if \<not> isStrictHexString chainId then (Inl NotStrictHexString, c)
          else if \<not> isSafeChainId chainId then (Inl UnsafeChainId, c)
          else
            (case nc_rpcUrl cfg of
               None \<Rightarrow> (Inl RpcUrlMissing, c)
             | Some rpcUrl \<Rightarrow>
                 if rpcUrl = [] then (Inl RpcUrlMissing, c)
                 else if referrer opts = [] \<or> source opts = [] then (Inl ReferrerAndSourceRequired, c)
                 else if \<not> isValidURL lib rpcUrl then (Inl InvalidRpcUrl, c)
                 else
                   (case nc_ticker cfg of
                      None \<Rightarrow> (Inl TickerRequired, c)
                    | Some ticker \<Rightarrow>
                        if ticker = [] then (Inl TickerRequired, c)
                        else
                          let oldNetworkConfigurations = networkConfigurations (state c);
                              oldNetworkConfigurationId =
                                map_option nc_id (findByRpcUrl lib rpcUrl oldNetworkConfigurations);
                              isNew = (oldNetworkConfigurationId = None
                                         \<or> oldNetworkConfigurationId = Some []);
                              newNetworkConfigurationId =
                                (case oldNetworkConfigurationId of
                                   None \<Rightarrow> random
                                 | Some i \<Rightarrow> if i = [] then random else i);
                              c1 = update (\<lambda>s. s\<lparr> networkConfigurations :=
                                     AList.update newNetworkConfigurationId
                                       \<lparr> nc_rpcUrl = Some rpcUrl, nc_chainId = Some chainId,
                                         nc_ticker = Some ticker, nc_nickname = nc_nickname cfg,
                                         nc_rpcPrefs = nc_rpcPrefs cfg,
                                         nc_id = newNetworkConfigurationId \<rparr>
                                       oldNetworkConfigurations \<rparr>) c;
                              c2 = (if isNew then
                                      c1\<lparr> trace := trace c1 @
                                            [TrackMetaMetricsEvent
                                               \<lparr> mm_event = ''Custom Network Added'',
                                                 mm_category = ''Network'',
                                                 mm_referrer = referrer opts,
                                                 mm_chain_id = chainId,
                                                 mm_symbol = ticker,
                                                 mm_source = source opts \<rparr>] \<rparr>
                                    else c1)
                          in if setActive opts then
                               (case setActiveNetwork_begin newNetworkConfigurationId c2 of
                                  (Inl e, c3) \<Rightarrow> (Inl e, c3)
                                | (Inr p, c3) \<Rightarrow> (Inr (newNetworkConfigurationId, p), c3))
                             else (Inr (newNetworkConfigurationId, None), c2))))"

text \<open>
  \<open>removeNetworkConfiguration\<close>. Deleting a name that is not a key of the registry
  leaves the registry as it is.
\<close>

definition removeNetworkConfiguration :: "string \<Rightarrow> NetworkController \<Rightarrow> unit outcome" where
  "removeNetworkConfiguration networkConfigurationId c =
     (case getProperty (networkConfigurations (state c)) networkConfigurationId of
        NoProperty \<Rightarrow> (Inl (NoSuchNetworkConfiguration networkConfigurationId), c)
      | _ \<Rightarrow>
          (Inr (),
           update (\<lambda>s. s\<lparr> networkConfigurations :=
                     AList.delete networkConfigurationId (networkConfigurations s) \<rparr>) c))"

section \<open>Runs\<close>

text \<open>
  The operations that run the refresh sequence, so that a statement can speak of any
  of them, and the resumption of several suspended probes one after the other.
\<close>

datatype Operation =
    SetProviderType NetworkType
  | SetActiveNetwork string
  | ResetConnection
  | RollbackToPreviousProvider

fun operation_begin :: "Operation \<Rightarrow> NetworkController \<Rightarrow> Probe option outcome" where
  "operation_begin (SetProviderType ty) c = setProviderType_begin ty c"
| "operation_begin (SetActiveNetwork i) c = setActiveNetwork_begin i c"
| "operation_begin ResetConnection c = resetConnection_begin c"
| "operation_begin RollbackToPreviousProvider c = rollbackToPreviousProvider_begin c"

definition resumeAll ::
  "Library \<Rightarrow> (Probe \<times> Responses) list \<Rightarrow> NetworkController \<Rightarrow> NetworkController" where
  "resumeAll lib ps c = fold (\<lambda>(p, resp). lookupNetwork_resume lib p resp) ps c"

fun isTrackMetaMetricsEvent :: "Action \<Rightarrow> bool" where
  "isTrackMetaMetricsEvent (TrackMetaMetricsEvent _) = True"
| "isTrackMetaMetricsEvent _ = False"

text \<open>The events published by a stretch of the trace.\<close>

fun published :: "Action list \<Rightarrow> Event list" where
  "published [] = []"
| "published (Publish e _ # as) = e # published as"
| "published (_ # as) = published as"

text \<open>
  A registry as the controller builds it: one entry per key, each stored under its own
  non-empty \<open>id\<close>.
\<close>

definition registryOK :: "(string \<times> NetworkConfiguration) list \<Rightarrow> bool" where
  "registryOK configs =
     (distinct (map fst configs) \<and> list_all (\<lambda>(k, n). nc_id n = k \<and> k \<noteq> []) configs)"

text \<open>The notifications \<open>lookupNetwork\<close> publishes after it has stored a status.\<close>

definition notifications :: "bool \<Rightarrow> NetworkStatus \<Rightarrow> Event list" where
  "notifications infura st =
     (if infura then
        (if st = Available then [infuraIsUnblocked]
         else if st = Blocked then [infuraIsBlocked] else [])
      else [infuraIsUnblocked])"

section \<open>Example inputs\<close>

definition exampleResponses :: Responses where
  "exampleResponses =
     \<lparr> net_version_response = Inr (JsString ''5''),
       latest_block_response = Inr (Some \<lparr> baseFeePerGas = Some ''0x63c498a46'' \<rparr>),
       block_settles_first = False \<rparr>"

text \<open>
  A library for the examples: the parser knows the one text Infura sends when it blocks
  a caller, numbers are rendered exactly (as the double is below \<open>2^53\<close>), letters
  are lowered within ASCII, and every URL is accepted.
\<close>

definition exampleParse :: "string \<Rightarrow> Json option" where
  \<open>exampleParse m =
     (if m = ''{"error":"countryBlocked"}''
      then Some (JsonObject [(''error'', JsonString ''countryBlocked'')]) else None)\<close>

fun decimal :: "nat \<Rightarrow> string" where
  "decimal n =
     (if n < 10 then [char_of (48 + n)]
      else decimal (n div 10) @ [char_of (48 + n mod 10)])"

declare decimal.simps [simp del]

definition asciiLowerCase :: "string \<Rightarrow> string" where
  "asciiLowerCase s =
     map (\<lambda>ch. case map_of (zip ''ABCDEFGHIJKLMNOPQRSTUVWXYZ'' ''abcdefghijklmnopqrstuvwxyz'') ch of
                 Some l \<Rightarrow> l | None \<Rightarrow> ch) s"

definition exampleLibrary :: Library where
  "exampleLibrary =
     \<lparr> JSON_parse = exampleParse,
       hexToDecimalText = (\<lambda>s. decimal (hexToNat s)),
       toLowerCase = asciiLowerCase,
       isValidURL = (\<lambda>u. True) \<rparr>"

definition exampleOptions :: NetworkControllerOptions where
  "exampleOptions = \<lparr> opt_state = None, opt_infuraProjectId = JsString ''project'' \<rparr>"

text \<open>The controller \<open>new NetworkController(exampleOptions)\<close> builds.\<close>

definition exampleController :: NetworkController where
  "exampleController =
     \<lparr> state = defaultState, ethQuery = False, infuraProjectId = ''project'',
       previousProviderConfig = providerConfig defaultState,
       providerProxy = None, blockTrackerProxy = None,
       trace = [], subscribers = [], networkChanged = (\<lambda>_. False), nextListener = 0 \<rparr>"

text \<open>The same controller after \<open>setProviderType('goerli')\<close> has run to completion.\<close>

definition goerliController :: NetworkController where
  "goerliController = snd (setProviderType exampleLibrary exampleResponses goerli exampleController)"

text \<open>
  Options with an initial state: a provider configuration without \<open>chainId\<close> and
  network details, the other fields left out.
\<close>

definition customOptions :: NetworkControllerOptions where
  "customOptions =
     \<lparr> opt_state = Some
         \<lparr> ps_networkId = None, ps_networkStatus = None,
           ps_providerConfig = Some
             \<lparr> pc_rpcUrl = Some ''http://example-custom-rpc.metamask.io'', pc_type = rpc,
               pc_chainId = None, pc_ticker = None, pc_nickname = Some ''Test initial state'',
               pc_rpcPrefs = None, pc_id = None \<rparr>,
           ps_networkDetails = Some \<lparr> EIPS = [1559 \<mapsto> True] \<rparr>,
           ps_networkConfigurations = None \<rparr>,
       opt_infuraProjectId = JsString ''project'' \<rparr>"

definition customController :: NetworkController where
  "customController =
     \<lparr> state =
         \<lparr> networkId = None, networkStatus = Unknown,
           providerConfig =
             \<lparr> pc_rpcUrl = Some ''http://example-custom-rpc.metamask.io'', pc_type = rpc,
               pc_chainId = None, pc_ticker = None, pc_nickname = Some ''Test initial state'',
               pc_rpcPrefs = None, pc_id = None \<rparr>,
           networkDetails = \<lparr> EIPS = [1559 \<mapsto> True] \<rparr>,
           networkConfigurations = [] \<rparr>,
       ethQuery = False, infuraProjectId = ''project'',
       previousProviderConfig =
         \<lparr> pc_rpcUrl = Some ''http://example-custom-rpc.metamask.io'', pc_type = rpc,
           pc_chainId = None, pc_ticker = None, pc_nickname = Some ''Test initial state'',
           pc_rpcPrefs = None, pc_id = None \<rparr>,
       providerProxy = None, blockTrackerProxy = None,
       trace = [], subscribers = [], networkChanged = (\<lambda>_. False), nextListener = 0 \<rparr>"

text \<open>A controller whose registry holds one custom network.\<close>

definition exampleConfiguration :: NetworkConfiguration where
  "exampleConfiguration =
     \<lparr> nc_rpcUrl = Some ''https://mock-rpc-url'', nc_chainId = Some ''0x6f'',
       nc_ticker = Some ''TEST'', nc_nickname = Some ''something existing'',
       nc_rpcPrefs = None, nc_id = ''testNetworkConfigurationId'' \<rparr>"

definition registryController :: NetworkController where
  "registryController =
     exampleController
       \<lparr> state := defaultState
          \<lparr> networkConfigurations := [(''testNetworkConfigurationId'', exampleConfiguration)] \<rparr> \<rparr>"

text \<open>Responses of a network with id 11155111 whose latest block has no base fee.\<close>

definition sepoliaResponses :: Responses where
  "sepoliaResponses =
     \<lparr> net_version_response = Inr (JsString ''11155111''),
       latest_block_response = Inr (Some \<lparr> baseFeePerGas = None \<rparr>),
       block_settles_first = True \<rparr>"

text \<open>Infura refusing the request because of the caller's country.\<close>

definition blockedResponses :: Responses where
  \<open>blockedResponses =
     \<lparr> net_version_response =
         Inl (ErrorObject (Some (JsNumber ''-32603''))
                (Some (JsString ''{"error":"countryBlocked"}''))),
       latest_block_response = Inr (Some \<lparr> baseFeePerGas = None \<rparr>),
       block_settles_first = False \<rparr>\<close>

text \<open>A \<open>net_version\<close> result that is no network id.\<close>

definition invalidIdResponses :: Responses where
  "invalidIdResponses =
     \<lparr> net_version_response = Inr (JsString ''invalid''),
       latest_block_response = Inr (Some \<lparr> baseFeePerGas = None \<rparr>),
       block_settles_first = False \<rparr>"

text \<open>A request rejected with the JSON-RPC error "method not found".\<close>

definition failedResponses :: Responses where
  "failedResponses =
     \<lparr> net_version_response =
         Inl (ErrorObject (Some (JsNumber ''-32601'')) (Some (JsString ''not found''))),
       latest_block_response = Inr None,
       block_settles_first = False \<rparr>"

text \<open>
  The goerli controller with a further \<open>lookupNetwork\<close> suspended at its requests, that
  probe, and the probe a following switch starts.
\<close>

definition probingController :: NetworkController where
  "probingController = snd (lookupNetwork_begin goerliController)"

definition probeA :: Probe where
  "probeA = \<lparr> probe_id = 1, isInfura = True \<rparr>"

definition probeB :: Probe where
  "probeB = \<lparr> probe_id = 2, isInfura = True \<rparr>"

text \<open>The registry controller with its custom network being made active.\<close>

definition customActiveController :: NetworkController where
  "customActiveController =
     snd (setActiveNetwork_begin ''testNetworkConfigurationId'' registryController)"

definition probeC :: Probe where
  "probeC = \<lparr> probe_id = 0, isInfura = False \<rparr>"

text \<open>The probing controller after \<open>setProviderType('sepolia')\<close> has started its probe.\<close>

definition switchedController :: NetworkController where
  "switchedController = snd (operation_begin (SetProviderType sepolia) probingController)"

text \<open>A further \<open>lookupNetwork\<close> on the controller with the custom network, suspended.\<close>

definition probeD :: Probe where
  "probeD = \<lparr> probe_id = 1, isInfura = False \<rparr>"

definition customProbingController :: NetworkController where
  "customProbingController = snd (lookupNetwork_begin customActiveController)"

text \<open>Two definitions to upsert, one with the URL of the stored network in capitals.\<close>

definition sameUrlConfiguration :: NetworkConfiguration where
  "sameUrlConfiguration =
     \<lparr> nc_rpcUrl = Some ''HTTPS://MOCK-RPC-URL'', nc_chainId = Some ''0x1'',
       nc_ticker = Some ''X'', nc_nickname = None, nc_rpcPrefs = None, nc_id = [] \<rparr>"

definition otherUrlConfiguration :: NetworkConfiguration where
  "otherUrlConfiguration =
     \<lparr> nc_rpcUrl = Some ''https://x'', nc_chainId = Some ''0x1'',
       nc_ticker = Some ''X'', nc_nickname = None, nc_rpcPrefs = None, nc_id = [] \<rparr>"

definition exampleUpsertOptions :: UpsertOptions where
  "exampleUpsertOptions = \<lparr> setActive = False, referrer = ''a'', source = ''b'' \<rparr>"

text \<open>
  A controller constructed with a registry whose one entry is stored under a key that
  is not its \<open>id\<close>.
\<close>

definition misKeyedController :: NetworkController where
  "misKeyedController =
     exampleController
       \<lparr> state := defaultState
          \<lparr> networkConfigurations := [(''testNetworkConfiguration'', exampleConfiguration)] \<rparr> \<rparr>"

section \<open>Basic facts\<close>

lemma fold_listener_fields [simp]:
  "state (fold listener xs c) = state c"
  "ethQuery (fold listener xs c) = ethQuery c"
  "infuraProjectId (fold listener xs c) = infuraProjectId c"
  "previousProviderConfig (fold listener xs c) = previousProviderConfig c"
  "providerProxy (fold listener xs c) = providerProxy c"
  "blockTrackerProxy (fold listener xs c) = blockTrackerProxy c"
  "trace (fold listener xs c) = trace c"
  "nextListener (fold listener xs c) = nextListener c"
  by (induction xs arbitrary: c; simp add: listener_def)+

lemma fold_listener_networkChanged [simp]:
  "networkChanged (fold listener xs c) i = (networkChanged c i \<or> i \<in> set xs)"
  by (induction xs arbitrary: c) (auto simp: listener_def)

lemma fold_listener_subscribers [simp]:
  "subscribers (fold listener xs c) = filter (\<lambda>i. i \<notin> set xs) (subscribers c)"
  by (induction xs arbitrary: c) (auto simp: listener_def removeAll_filter_not_eq intro: filter_cong)

lemma publish_fields [simp]:
  "state (publish e c) = state c"
  "ethQuery (publish e c) = ethQuery c"
  "infuraProjectId (publish e c) = infuraProjectId c"
  "previousProviderConfig (publish e c) = previousProviderConfig c"
  "providerProxy (publish e c) = providerProxy c"
  "blockTrackerProxy (publish e c) = blockTrackerProxy c"
  "trace (publish e c) = trace c @ [Publish e (state c)]"
  "nextListener (publish e c) = nextListener c"
  by (simp_all add: publish_def Let_def)

lemma publish_networkChanged [simp]:
  "networkChanged (publish e c) i =
     (networkChanged c i \<or> (e = networkDidChange \<and> i \<in> set (subscribers c)))"
  by (simp add: publish_def Let_def)

lemma publish_subscribers [simp]:
  "subscribers (publish e c) = (if e = networkDidChange then [] else subscribers c)"
  by (simp add: publish_def Let_def)

lemma update_fields [simp]:
  "state (update f c) = f (state c)"
  "ethQuery (update f c) = ethQuery c"
  "infuraProjectId (update f c) = infuraProjectId c"
  "previousProviderConfig (update f c) = previousProviderConfig c"
  "providerProxy (update f c) = providerProxy c"
  "blockTrackerProxy (update f c) = blockTrackerProxy c"
  "trace (update f c) = trace c @ [StateChange (f (state c))]"
  "nextListener (update f c) = nextListener c"
  "subscribers (update f c) = subscribers c"
  "networkChanged (update f c) = networkChanged c"
  by (simp_all add: update_def Let_def)


lemma configureProvider_kept [simp]:
  "state (snd (configureProvider ty url cid c)) = state c"
  "previousProviderConfig (snd (configureProvider ty url cid c)) = previousProviderConfig c"
  "infuraProjectId (snd (configureProvider ty url cid c)) = infuraProjectId c"
  "subscribers (snd (configureProvider ty url cid c)) = subscribers c"
  "networkChanged (snd (configureProvider ty url cid c)) = networkChanged c"
  "nextListener (snd (configureProvider ty url cid c)) = nextListener c"
  by (simp_all add: configureProvider_def setupInfuraProvider_def setupStandardProvider_def
        updateProvider_def registerProvider_def setProviderAndBlockTracker_def
        createNetworkClient_def Let_def split: NetworkType.splits option.splits)

lemma configureProvider_ok:
  "fst (configureProvider ty url cid c) = Inr u \<Longrightarrow> ethQuery (snd (configureProvider ty url cid c))"
  by (auto simp: configureProvider_def setupInfuraProvider_def setupStandardProvider_def
        updateProvider_def registerProvider_def setProviderAndBlockTracker_def
        createNetworkClient_def Let_def split: NetworkType.splits option.splits)

lemma lookupNetwork_begin_kept [simp]:
  "state (snd (lookupNetwork_begin c)) = state c"
  "previousProviderConfig (snd (lookupNetwork_begin c)) = previousProviderConfig c"
  "ethQuery (snd (lookupNetwork_begin c)) = ethQuery c"
  "providerProxy (snd (lookupNetwork_begin c)) = providerProxy c"
  "blockTrackerProxy (snd (lookupNetwork_begin c)) = blockTrackerProxy c"
  by (simp_all add: lookupNetwork_begin_def Let_def)

lemma lookupNetwork_resume_kept [simp]:
  "providerConfig (state (lookupNetwork_resume P p r c)) = providerConfig (state c)"
  "networkConfigurations (state (lookupNetwork_resume P p r c)) = networkConfigurations (state c)"
  "previousProviderConfig (lookupNetwork_resume P p r c) = previousProviderConfig c"
  "ethQuery (lookupNetwork_resume P p r c) = ethQuery c"
  "providerProxy (lookupNetwork_resume P p r c) = providerProxy c"
  "blockTrackerProxy (lookupNetwork_resume P p r c) = blockTrackerProxy c"
  by (simp_all add: lookupNetwork_resume_def commitLookup_def Let_def split: prod.splits)

lemma refreshNetwork_begin_kept [simp]:
  "providerConfig (state (snd (refreshNetwork_begin c))) = providerConfig (state c)"
  "networkConfigurations (state (snd (refreshNetwork_begin c))) = networkConfigurations (state c)"
  "previousProviderConfig (snd (refreshNetwork_begin c)) = previousProviderConfig c"
proof -
  let ?c2 = "update resetNetwork (publish networkWillChange c)"
  let ?pc = "providerConfig (state ?c2)"
  let ?r = "configureProvider (pc_type ?pc) (pc_rpcUrl ?pc) (pc_chainId ?pc) ?c2"
  have r: "refreshNetwork_begin c =
      (case ?r of (Inl e, c3) \<Rightarrow> (Inl e, c3)
       | (Inr _, c3) \<Rightarrow> (case lookupNetwork_begin (publish networkDidChange c3) of (p, c4) \<Rightarrow> (Inr p, c4)))"
    by (simp add: refreshNetwork_begin_def Let_def)
  have s: "state (snd ?r) = resetNetwork (state c)"
          "previousProviderConfig (snd ?r) = previousProviderConfig c"
    by simp_all
  obtain a c3 where rc: "?r = (a, c3)" by (cases ?r)
  have s3: "state c3 = resetNetwork (state c)" "previousProviderConfig c3 = previousProviderConfig c"
    using s unfolding rc by simp_all
  obtain p c4 where l: "lookupNetwork_begin (publish networkDidChange c3) = (p, c4)"
    by (cases "lookupNetwork_begin (publish networkDidChange c3)")
  have s4: "state c4 = state c3" "previousProviderConfig c4 = previousProviderConfig c3"
    using lookupNetwork_begin_kept(1,2)[of "publish networkDidChange c3"] l by simp_all
  show "providerConfig (state (snd (refreshNetwork_begin c))) = providerConfig (state c)"
    using r rc l s3 s4 by (cases a) (simp_all add: resetNetwork_def)
  show "networkConfigurations (state (snd (refreshNetwork_begin c))) = networkConfigurations (state c)"
    using r rc l s3 s4 by (cases a) (simp_all add: resetNetwork_def)
  show "previousProviderConfig (snd (refreshNetwork_begin c)) = previousProviderConfig c"
    using r rc l s3 s4 by (cases a) simp_all
qed

lemma await_lookup_kept [simp]:
  "providerConfig (state (snd (await_lookup P r x))) = providerConfig (state (snd x))"
  "networkConfigurations (state (snd (await_lookup P r x))) = networkConfigurations (state (snd x))"
  "previousProviderConfig (snd (await_lookup P r x)) = previousProviderConfig (snd x)"
  by (simp_all add: await_lookup_def split: prod.splits sum.splits option.splits)

lemma await_lookup_fst:
  "fst (await_lookup P r x) = (case fst x of Inl e \<Rightarrow> Inl e | Inr _ \<Rightarrow> Inr ())"
  by (simp add: await_lookup_def split: prod.splits sum.splits option.splits)

lemma setProviderType_begin_previous:
  "fst (setProviderType_begin ty c) = Inr p \<Longrightarrow>
     previousProviderConfig (snd (setProviderType_begin ty c)) = providerConfig (state c)"
  by (simp add: setProviderType_begin_def Let_def split: if_splits)

lemma setActiveNetwork_begin_previous:
  "previousProviderConfig (snd (setActiveNetwork_begin nid c)) = providerConfig (state c)"
  by (simp add: setActiveNetwork_begin_def Let_def split: Property.splits)

lemma exampleController_constructed: "new_NetworkController exampleOptions = Inr exampleController"
  by (simp add: new_NetworkController_def exampleOptions_def exampleController_def
        validInfuraProjectId_def initialState_def)

lemmas run_defs =
  setProviderType_def setProviderType_begin_def setActiveNetwork_def setActiveNetwork_begin_def
  rollbackToPreviousProvider_def rollbackToPreviousProvider_begin_def
  resetConnection_def resetConnection_begin_def
  refreshNetwork_begin_def await_lookup_def lookupNetwork_begin_def lookupNetwork_resume_def
  configureProvider_def setupInfuraProvider_def setupStandardProvider_def updateProvider_def
  registerProvider_def setProviderAndBlockTracker_def createNetworkClient_def
  resetNetwork_def commitLookup_def promiseAll_def getNetworkId_def
  determineEIP1559Compatibility_def convertNetworkId_def isStrictHexString_def isDigit_def
  hexDigitValue_def failureStatus_def responseBody_def lookupOutcome_def getProperty_def

lemma goerliController_configs:
  "pc_type (providerConfig (state goerliController)) = goerli"
  "pc_type (previousProviderConfig goerliController) = mainnet"
  "networkStatus (state goerliController) = Available"
  "networkId (state goerliController) = Some ''5''"
  by (simp_all add: goerliController_def exampleController_def exampleResponses_def
        defaultState_def run_defs Let_def)

lemma lookupNetwork_resume_stale:
  "networkChanged c (probe_id p) \<Longrightarrow> lookupNetwork_resume P p r c = c"
  by (simp add: lookupNetwork_resume_def Let_def split: prod.splits)

lemma lookupNetwork_resume_commit:
  assumes "\<not> networkChanged c (probe_id p)"
    and "lookupOutcome P (isInfura p) r = (st, nid, eip)"
  shows "state (lookupNetwork_resume P p r c) = commitLookup nid st eip (state c)"
    and "trace (lookupNetwork_resume P p r c) =
           trace c @ StateChange (commitLookup nid st eip (state c))
             # map (\<lambda>e. Publish e (commitLookup nid st eip (state c))) (notifications (isInfura p) st)"
    and "networkChanged (lookupNetwork_resume P p r c) = networkChanged c"
    and "subscribers (lookupNetwork_resume P p r c) = removeAll (probe_id p) (subscribers c)"
    and "nextListener (lookupNetwork_resume P p r c) = nextListener c"
  using assms
  by (auto simp: lookupNetwork_resume_def Let_def notifications_def fun_eq_iff)

lemma resetNetwork_kept [simp]:
  "providerConfig (resetNetwork s) = providerConfig s"
  "networkConfigurations (resetNetwork s) = networkConfigurations s"
  "networkId (resetNetwork s) = None"
  "networkStatus (resetNetwork s) = Unknown"
  "EIPS (networkDetails (resetNetwork s)) = Map.empty"
  by (simp_all add: resetNetwork_def)

lemma fold_listener_eq:
  "fold listener xs c =
     c\<lparr> networkChanged := (\<lambda>i. networkChanged c i \<or> i \<in> set xs),
        subscribers := filter (\<lambda>i. i \<notin> set xs) (subscribers c) \<rparr>"
  by (rule NetworkController.equality) (simp_all add: fun_eq_iff)

lemma publish_networkDidChange_eq:
  "publish networkDidChange c =
     c\<lparr> trace := trace c @ [Publish networkDidChange (state c)],
        networkChanged := (\<lambda>i. networkChanged c i \<or> i \<in> set (subscribers c)),
        subscribers := [] \<rparr>"
  by (rule NetworkController.equality) (simp_all add: fun_eq_iff)

lemma publish_other_eq:
  "e \<noteq> networkDidChange \<Longrightarrow>
     publish e c = c\<lparr> trace := trace c @ [Publish e (state c)] \<rparr>"
  by (simp add: publish_def Let_def)

lemma configureProvider_ok_shape:
  assumes "fst (configureProvider ty url cid c) = Inr u"
  obtains cl where
    "configureProvider ty url cid c =
       (Inr (), c\<lparr> trace := trace c @ [CreateNetworkClient cl, SetTarget cl],
                   providerProxy := Some cl, blockTrackerProxy := Some cl, ethQuery := True \<rparr>)"
proof (cases ty)
  case rpc
  with assms obtain ch where ch: "cid = Some ch"
    by (cases cid) (simp_all add: configureProvider_def)
  with assms rpc obtain v where v: "url = Some v"
    by (cases url) (simp_all add: configureProvider_def)
  show ?thesis
    by (rule that[of "CustomClient ch v"])
       (simp add: rpc ch v configureProvider_def setupStandardProvider_def updateProvider_def
          registerProvider_def setProviderAndBlockTracker_def createNetworkClient_def Let_def)
next
  case (other_type x)
  with assms show ?thesis by (simp add: configureProvider_def)
qed (rule that[of "InfuraClient ty (infuraProjectId c)"],
     simp add: configureProvider_def setupInfuraProvider_def updateProvider_def
       registerProvider_def setProviderAndBlockTracker_def createNetworkClient_def Let_def)+

lemma configureProvider_fail_shape:
  assumes "fst (configureProvider ty url cid c) = Inl e"
  shows "snd (configureProvider ty url cid c) = c"
  using assms
  by (cases ty; cases cid; cases url) (simp_all add: configureProvider_def)

lemma refreshNetwork_begin_unfold:
  "refreshNetwork_begin c =
     (case configureProvider (pc_type (providerConfig (state c))) (pc_rpcUrl (providerConfig (state c)))
             (pc_chainId (providerConfig (state c)))
             (update resetNetwork (publish networkWillChange c)) of
        (Inl e, c3) \<Rightarrow> (Inl e, c3)
      | (Inr _, c3) \<Rightarrow>
          (case lookupNetwork_begin (publish networkDidChange c3) of (p, c4) \<Rightarrow> (Inr p, c4)))"
  by (simp add: refreshNetwork_begin_def Let_def resetNetwork_def)

lemma refreshNetwork_begin_ok:
  assumes "fst (refreshNetwork_begin c) = Inr po"
  obtains cl where
    "refreshNetwork_begin c =
       (Inr (Some \<lparr> probe_id = nextListener c,
                    isInfura = isInfuraProviderType (pc_type (providerConfig (state c))) \<rparr>),
        c\<lparr> state := resetNetwork (state c), ethQuery := True,
           providerProxy := Some cl, blockTrackerProxy := Some cl,
           trace := trace c @
             [Publish networkWillChange (state c), StateChange (resetNetwork (state c)),
              CreateNetworkClient cl, SetTarget cl,
              Publish networkDidChange (resetNetwork (state c)),
              SendAsync net_version, SendAsync eth_getBlockByNumber],
           subscribers := [nextListener c],
           networkChanged :=
             (\<lambda>i. networkChanged c i \<or> i \<in> set (subscribers c))(nextListener c := False),
           nextListener := Suc (nextListener c) \<rparr>)"
proof -
  let ?c2 = "update resetNetwork (publish networkWillChange c)"
  let ?pc = "providerConfig (state c)"
  let ?cfg = "configureProvider (pc_type ?pc) (pc_rpcUrl ?pc) (pc_chainId ?pc) ?c2"
  from assms obtain u where "fst ?cfg = Inr u"
    by (cases ?cfg; cases "fst ?cfg")
       (auto simp: refreshNetwork_begin_unfold split: prod.splits sum.splits)
  then obtain cl where cfg: "?cfg = (Inr (),
      ?c2\<lparr> trace := trace ?c2 @ [CreateNetworkClient cl, SetTarget cl],
           providerProxy := Some cl, blockTrackerProxy := Some cl, ethQuery := True \<rparr>)"
    by (rule configureProvider_ok_shape)
  have "refreshNetwork_begin c =
          (case lookupNetwork_begin (publish networkDidChange
                  (?c2\<lparr> trace := trace ?c2 @ [CreateNetworkClient cl, SetTarget cl],
                        providerProxy := Some cl, blockTrackerProxy := Some cl,
                        ethQuery := True \<rparr>)) of (p, c4) \<Rightarrow> (Inr p, c4))"
    unfolding refreshNetwork_begin_unfold cfg by simp
  then show ?thesis
    by (intro that[of cl])
       (simp add: lookupNetwork_begin_def Let_def publish_networkDidChange_eq publish_other_eq
          update_def fun_eq_iff)
qed

lemma refreshNetwork_begin_fail:
  assumes "fst (refreshNetwork_begin c) = Inl e"
  shows "snd (refreshNetwork_begin c) =
           c\<lparr> state := resetNetwork (state c),
              trace := trace c @
                [Publish networkWillChange (state c), StateChange (resetNetwork (state c))] \<rparr>"
proof -
  let ?c2 = "update resetNetwork (publish networkWillChange c)"
  let ?pc = "providerConfig (state c)"
  let ?cfg = "configureProvider (pc_type ?pc) (pc_rpcUrl ?pc) (pc_chainId ?pc) ?c2"
  from assms have f: "fst ?cfg = Inl e"
    by (cases ?cfg; cases "fst ?cfg")
       (auto simp: refreshNetwork_begin_unfold split: prod.splits sum.splits)
  then have "snd ?cfg = ?c2" by (rule configureProvider_fail_shape)
  with f have "?cfg = (Inl e, ?c2)" by (simp add: prod_eq_iff)
  then have "refreshNetwork_begin c = (Inl e, ?c2)"
    unfolding refreshNetwork_begin_unfold by simp
  then show ?thesis
    by (simp add: publish_def update_def Let_def)
qed


lemma operation_begin_refresh:
  assumes "fst (operation_begin op c) = Inr po"
  obtains c0 where "operation_begin op c = refreshNetwork_begin c0"
    and "subscribers c0 = subscribers c" and "networkChanged c0 = networkChanged c"
    and "nextListener c0 = nextListener c"
proof (cases op)
  case (SetProviderType ty)
  let ?c0 = "update (\<lambda>s. s\<lparr> providerConfig :=
                   (providerConfig s)
                     \<lparr> pc_type := ty,
                       pc_ticker := Some (if NetworksTicker ty \<noteq> [] then NetworksTicker ty else ''ETH''),
                       pc_chainId := Some (ChainId ty),
                       pc_rpcPrefs := BUILT_IN_NETWORKS_rpcPrefs ty,
                       pc_rpcUrl := None,
                       pc_nickname := None,
                       pc_id := None \<rparr> \<rparr>) (c\<lparr> previousProviderConfig := providerConfig (state c) \<rparr>)"
  from assms SetProviderType have "operation_begin op c = refreshNetwork_begin ?c0"
    by (simp add: setProviderType_begin_def Let_def split: if_splits)
  then show ?thesis by (rule that) simp_all
next
  case (SetActiveNetwork i)
  show ?thesis
  proof (cases "getProperty (networkConfigurations (state c)) i")
    case NoProperty
    with assms SetActiveNetwork show ?thesis
      by (simp add: setActiveNetwork_begin_def Let_def)
  next
    case (Own t)
    let ?c0 = "update (\<lambda>s. s\<lparr> providerConfig :=
                         (providerConfig s)
                           \<lparr> pc_type := rpc,
                             pc_rpcUrl := nc_rpcUrl t,
                             pc_chainId := nc_chainId t,
                             pc_ticker := nc_ticker t,
                             pc_nickname := nc_nickname t,
                             pc_rpcPrefs := nc_rpcPrefs t,
                             pc_id := Some (nc_id t) \<rparr> \<rparr>)
                 (c\<lparr> previousProviderConfig := providerConfig (state c) \<rparr>)"
    from SetActiveNetwork Own have "operation_begin op c = refreshNetwork_begin ?c0"
      by (simp add: setActiveNetwork_begin_def Let_def)
    then show ?thesis by (rule that) simp_all
  next
    case Inherited
    let ?c0 = "update (\<lambda>s. s\<lparr> providerConfig :=
                         (providerConfig s)
                           \<lparr> pc_type := rpc,
                             pc_rpcUrl := None,
                             pc_chainId := None,
                             pc_ticker := None,
                             pc_nickname := None,
                             pc_rpcPrefs := None,
                             pc_id := None \<rparr> \<rparr>)
                 (c\<lparr> previousProviderConfig := providerConfig (state c) \<rparr>)"
    from SetActiveNetwork Inherited have "operation_begin op c = refreshNetwork_begin ?c0"
      by (simp add: setActiveNetwork_begin_def Let_def)
    then show ?thesis by (rule that) simp_all
  qed
next
  case ResetConnection
  then have "operation_begin op c = refreshNetwork_begin c"
    by (simp add: resetConnection_begin_def)
  then show ?thesis by (rule that) simp_all
next
  case RollbackToPreviousProvider
  then have "operation_begin op c =
      refreshNetwork_begin (update (\<lambda>s. s\<lparr> providerConfig := previousProviderConfig c \<rparr>) c)"
    by (simp add: rollbackToPreviousProvider_begin_def)
  then show ?thesis by (rule that) simp_all
qed

lemma operation_begin_ok:
  assumes "operation_begin op c = (Inr (Some B), c')"
  shows "probe_id B = nextListener c"
    and "networkChanged c' = (\<lambda>i. networkChanged c i \<or> i \<in> set (subscribers c))(nextListener c := False)"
    and "isInfura B = isInfuraProviderType (pc_type (providerConfig (state c')))"
proof -
  from assms have "fst (operation_begin op c) = Inr (Some B)" by simp
  then obtain c0 where c0: "operation_begin op c = refreshNetwork_begin c0"
    "subscribers c0 = subscribers c" "networkChanged c0 = networkChanged c"
    "nextListener c0 = nextListener c"
    by (rule operation_begin_refresh)
  with assms have r: "refreshNetwork_begin c0 = (Inr (Some B), c')" by simp
  then have "fst (refreshNetwork_begin c0) = Inr (Some B)" by simp
  then obtain cl where
    "refreshNetwork_begin c0 =
       (Inr (Some \<lparr> probe_id = nextListener c0,
                    isInfura = isInfuraProviderType (pc_type (providerConfig (state c0))) \<rparr>),
        c0\<lparr> state := resetNetwork (state c0), ethQuery := True,
           providerProxy := Some cl, blockTrackerProxy := Some cl,
           trace := trace c0 @
             [Publish networkWillChange (state c0), StateChange (resetNetwork (state c0)),
              CreateNetworkClient cl, SetTarget cl,
              Publish networkDidChange (resetNetwork (state c0)),
              SendAsync net_version, SendAsync eth_getBlockByNumber],
           subscribers := [nextListener c0],
           networkChanged :=
             (\<lambda>i. networkChanged c0 i \<or> i \<in> set (subscribers c0))(nextListener c0 := False),
           nextListener := Suc (nextListener c0) \<rparr>)"
    by (rule refreshNetwork_begin_ok)
  with r have B: "B = \<lparr> probe_id = nextListener c0,
                    isInfura = isInfuraProviderType (pc_type (providerConfig (state c0))) \<rparr>"
    and c': "c' = c0\<lparr> state := resetNetwork (state c0), ethQuery := True,
           providerProxy := Some cl, blockTrackerProxy := Some cl,
           trace := trace c0 @
             [Publish networkWillChange (state c0), StateChange (resetNetwork (state c0)),
              CreateNetworkClient cl, SetTarget cl,
              Publish networkDidChange (resetNetwork (state c0)),
              SendAsync net_version, SendAsync eth_getBlockByNumber],
           subscribers := [nextListener c0],
           networkChanged :=
             (\<lambda>i. networkChanged c0 i \<or> i \<in> set (subscribers c0))(nextListener c0 := False),
           nextListener := Suc (nextListener c0) \<rparr>"
    by simp_all
  show "probe_id B = nextListener c" by (simp add: B c0)
  show "networkChanged c' = (\<lambda>i. networkChanged c i \<or> i \<in> set (subscribers c))(nextListener c := False)"
    by (simp add: c' c0)
  show "isInfura B = isInfuraProviderType (pc_type (providerConfig (state c')))"
    by (simp add: B c')
qed

lemma resumeAll_stale:
  "list_all (\<lambda>(A, r). networkChanged c (probe_id A)) ps \<Longrightarrow> resumeAll P ps c = c"
  by (induction ps) (auto simp: resumeAll_def lookupNetwork_resume_stale)

text \<open>
  A probe is subscribed from the moment \<open>lookupNetwork\<close> suspends, and stays so while
  other probes resume.
\<close>

lemma lookupNetwork_begin_subscribed:
  "lookupNetwork_begin c = (Some p, c1) \<Longrightarrow>
     probe_id p \<in> set (subscribers c1) \<and> probe_id p < nextListener c1
     \<and> \<not> networkChanged c1 (probe_id p)"
  by (auto simp: lookupNetwork_begin_def Let_def split: if_splits)

lemma lookupNetwork_resume_other_subscribed:
  assumes "probe_id p \<in> set (subscribers c)" and "probe_id p < nextListener c"
    and "probe_id q \<noteq> probe_id p"
  shows "probe_id p \<in> set (subscribers (lookupNetwork_resume P q r c))
         \<and> probe_id p < nextListener (lookupNetwork_resume P q r c)"
proof (cases "networkChanged c (probe_id q)")
  case True
  with assms show ?thesis by (simp add: lookupNetwork_resume_stale)
next
  case False
  obtain st nid eip where o: "lookupOutcome P (isInfura q) r = (st, nid, eip)"
    by (cases "lookupOutcome P (isInfura q) r")
  note commit = lookupNetwork_resume_commit [OF False o]
  from assms show ?thesis by (simp add: commit(4,5))
qed

section \<open>The constructor\<close>

text \<open>
  C10. The constructor's state is the default state with every top-level field the
  caller gave put in its place as a whole: a given \<open>providerConfig\<close> or
  \<open>networkDetails\<close> is the resulting one, so nothing of the default object (such as
  the default \<open>chainId\<close>) shows through where the given object leaves a field out.
\<close>

theorem constructor_merges_state_shallowly:
  assumes "new_NetworkController opts = Inr c" and "opt_state opts = Some s"
  shows "(case ps_networkId s of
            Some v \<Rightarrow> networkId (state c) = v
          | None \<Rightarrow> networkId (state c) = networkId defaultState)
       \<and> (case ps_networkStatus s of
            Some v \<Rightarrow> networkStatus (state c) = v
          | None \<Rightarrow> networkStatus (state c) = networkStatus defaultState)
       \<and> (case ps_providerConfig s of
            Some v \<Rightarrow> providerConfig (state c) = v
          | None \<Rightarrow> providerConfig (state c) = providerConfig defaultState)
       \<and> (case ps_networkDetails s of
            Some v \<Rightarrow> networkDetails (state c) = v
          | None \<Rightarrow> networkDetails (state c) = networkDetails defaultState)
       \<and> (case ps_networkConfigurations s of
            Some v \<Rightarrow> networkConfigurations (state c) = v
          | None \<Rightarrow> networkConfigurations (state c) = networkConfigurations defaultState)"
proof -
  from assms have "state c = initialState (Some s)"
    by (auto simp: new_NetworkController_def Let_def split: option.splits)
  then show ?thesis
    by (simp add: initialState_def spread_def split: option.splits)
qed

theorem constructor_merges_state_shallowly_witness:
  "new_NetworkController customOptions = Inr customController
   \<and> pc_chainId (providerConfig (state customController)) = None
   \<and> pc_chainId (providerConfig defaultState) = Some ''0x1''
   \<and> EIPS (networkDetails (state customController)) 1559 = Some True
   \<and> networkStatus (state customController) = Unknown
   \<and> networkConfigurations (state customController) = []"
proof -
  have h1: "new_NetworkController customOptions = Inr customController"
    by (simp add: new_NetworkController_def customOptions_def customController_def
          validInfuraProjectId_def initialState_def spread_def defaultState_def)
  have h2: "opt_state customOptions = Some
         \<lparr> ps_networkId = None, ps_networkStatus = None,
           ps_providerConfig = Some
             \<lparr> pc_rpcUrl = Some ''http://example-custom-rpc.metamask.io'', pc_type = rpc,
               pc_chainId = None, pc_ticker = None, pc_nickname = Some ''Test initial state'',
               pc_rpcPrefs = None, pc_id = None \<rparr>,
           ps_networkDetails = Some \<lparr> EIPS = [1559 \<mapsto> True] \<rparr>,
           ps_networkConfigurations = None \<rparr>"
    by (simp add: customOptions_def)
  from constructor_merges_state_shallowly [OF h1 h2] h1 show ?thesis
    by (simp add: defaultState_def)
qed

section \<open>Rolling back\<close>

text \<open>
  C2, as the code has it. \<open>rollbackToPreviousProvider\<close> makes the stored previous
  configuration the active one and leaves the stored previous configuration as it
  was; a second rollback right after the first therefore leaves the active
  configuration equal to that same previous configuration.
\<close>

theorem rollback_restores_previous_and_keeps_it:
  "providerConfig (state (snd (rollbackToPreviousProvider P r c))) = previousProviderConfig c
   \<and> previousProviderConfig (snd (rollbackToPreviousProvider P r c)) = previousProviderConfig c
   \<and> providerConfig (state (snd (rollbackToPreviousProvider P r'
        (snd (rollbackToPreviousProvider P r c))))) = previousProviderConfig c"
  by (simp add: rollbackToPreviousProvider_def rollbackToPreviousProvider_begin_def)

text \<open>
  C2, as stated, fails: after a switch from mainnet to goerli, a rollback does not store
  the goerli configuration as the previous one, and two rollbacks do not lead back to
  goerli.
\<close>

theorem rollback_swap_counterexample:
  "previousProviderConfig
     (snd (rollbackToPreviousProvider exampleLibrary exampleResponses goerliController))
     \<noteq> providerConfig (state goerliController)
   \<and> providerConfig (state
       (snd (rollbackToPreviousProvider exampleLibrary exampleResponses
          (snd (rollbackToPreviousProvider exampleLibrary exampleResponses goerliController)))))
     \<noteq> providerConfig (state goerliController)"
proof -
  have "previousProviderConfig goerliController \<noteq> providerConfig (state goerliController)"
    using goerliController_configs(1,2) by auto
  then show ?thesis
    by (simp add: rollbackToPreviousProvider_def rollbackToPreviousProvider_begin_def)
qed

text \<open>
  C7. Whatever configuration is active, after one successful switch
  (\<open>setProviderType\<close> or \<open>setActiveNetwork\<close>) followed by a rollback the active
  configuration is again the one from before the switch, in every field.
\<close>

theorem rollback_after_one_switch:
  "(setProviderType P r ty c = (Inr u, c1) \<longrightarrow>
      providerConfig (state (snd (rollbackToPreviousProvider P r' c1))) = providerConfig (state c))
   \<and> (setActiveNetwork P r nid c = (Inr u, c1) \<longrightarrow>
      providerConfig (state (snd (rollbackToPreviousProvider P r' c1))) = providerConfig (state c))"
proof (intro conjI impI)
  assume a: "setProviderType P r ty c = (Inr u, c1)"
  from a have "fst (await_lookup P r (setProviderType_begin ty c)) = Inr u"
    by (simp add: setProviderType_def)
  then obtain p where p: "fst (setProviderType_begin ty c) = Inr p"
    by (auto simp: await_lookup_fst split: sum.splits)
  from a have "c1 = snd (await_lookup P r (setProviderType_begin ty c))"
    unfolding setProviderType_def by (metis snd_conv)
  then have "previousProviderConfig c1 = previousProviderConfig (snd (setProviderType_begin ty c))"
    by simp
  with setProviderType_begin_previous[OF p]
  have "previousProviderConfig c1 = providerConfig (state c)" by simp
  then show "providerConfig (state (snd (rollbackToPreviousProvider P r' c1))) = providerConfig (state c)"
    by (simp add: rollbackToPreviousProvider_def rollbackToPreviousProvider_begin_def)
next
  assume a: "setActiveNetwork P r nid c = (Inr u, c1)"
  from a have "c1 = snd (await_lookup P r (setActiveNetwork_begin nid c))"
    unfolding setActiveNetwork_def by (metis snd_conv)
  then have "previousProviderConfig c1 = previousProviderConfig (snd (setActiveNetwork_begin nid c))"
    by simp
  then have "previousProviderConfig c1 = providerConfig (state c)"
    by (simp add: setActiveNetwork_begin_previous)
  then show "providerConfig (state (snd (rollbackToPreviousProvider P r' c1))) = providerConfig (state c)"
    by (simp add: rollbackToPreviousProvider_def rollbackToPreviousProvider_begin_def)
qed

theorem rollback_after_one_switch_witness:
  "setProviderType exampleLibrary exampleResponses goerli exampleController
     = (Inr (), goerliController)
   \<and> providerConfig (state
        (snd (rollbackToPreviousProvider exampleLibrary exampleResponses goerliController)))
     = providerConfig (state exampleController)
   \<and> pc_type (providerConfig (state goerliController)) = goerli
   \<and> pc_type (providerConfig (state exampleController)) = mainnet
   \<and> fst (setActiveNetwork exampleLibrary exampleResponses ''testNetworkConfigurationId''
           registryController) = Inr ()
   \<and> pc_type (providerConfig (state
        (snd (setActiveNetwork exampleLibrary exampleResponses ''testNetworkConfigurationId''
           registryController)))) = rpc
   \<and> providerConfig (state
        (snd (rollbackToPreviousProvider exampleLibrary exampleResponses
           (snd (setActiveNetwork exampleLibrary exampleResponses ''testNetworkConfigurationId''
              registryController)))))
     = providerConfig (state registryController)"
proof -
  let ?a = "setActiveNetwork exampleLibrary exampleResponses ''testNetworkConfigurationId''
              registryController"
  have f1: "fst (setProviderType exampleLibrary exampleResponses goerli exampleController) = Inr ()"
    by (simp add: exampleController_def exampleResponses_def defaultState_def run_defs Let_def)
  have h1: "setProviderType exampleLibrary exampleResponses goerli exampleController
              = (Inr (), goerliController)"
    using f1 by (simp add: goerliController_def prod_eq_iff)
  have f2: "fst ?a = Inr ()"
    by (simp add: registryController_def exampleConfiguration_def exampleController_def
          exampleResponses_def defaultState_def run_defs Let_def)
  have t2: "pc_type (providerConfig (state (snd ?a))) = rpc"
    by (simp add: registryController_def exampleConfiguration_def exampleController_def
          exampleResponses_def defaultState_def run_defs Let_def)
  have h2: "?a = (Inr (), snd ?a)"
    using f2 by (simp add: prod_eq_iff)
  have t1: "pc_type (providerConfig (state exampleController)) = mainnet"
    by (simp add: exampleController_def defaultState_def)
  from rollback_after_one_switch
         [of exampleLibrary exampleResponses goerli exampleController "()" goerliController
             exampleResponses "''testNetworkConfigurationId''"]
       rollback_after_one_switch
         [of exampleLibrary exampleResponses goerli registryController "()" "snd ?a"
             exampleResponses "''testNetworkConfigurationId''"]
       h1 h2 f2 t1 t2 goerliController_configs(1)
  show ?thesis by simp
qed

section \<open>Switching to an unknown network configuration\<close>

text \<open>
  C5 at a concrete input. The controller is on goerli with mainnet stored as the
  previous configuration. \<open>setActiveNetwork\<close> with an id that is not in the registry
  throws and leaves the state, the proxies and the trace alone, but it has already
  overwritten the stored previous configuration: a rollback that would have led to
  mainnet now stays on goerli.
\<close>

theorem setActiveNetwork_unknown_id_overwrites_previous:
  "fst (setActiveNetwork_begin ''missing'' goerliController)
     = Inl (NoSuchNetworkConfiguration ''missing'')
   \<and> state (snd (setActiveNetwork_begin ''missing'' goerliController)) = state goerliController
   \<and> providerProxy (snd (setActiveNetwork_begin ''missing'' goerliController))
       = providerProxy goerliController
   \<and> trace (snd (setActiveNetwork_begin ''missing'' goerliController)) = trace goerliController
   \<and> pc_type (previousProviderConfig goerliController) = mainnet
   \<and> pc_type (previousProviderConfig (snd (setActiveNetwork_begin ''missing'' goerliController)))
       = goerli
   \<and> pc_type (providerConfig (state
        (snd (rollbackToPreviousProvider exampleLibrary exampleResponses goerliController))))
       = mainnet
   \<and> pc_type (providerConfig (state
        (snd (rollbackToPreviousProvider exampleLibrary exampleResponses
           (snd (setActiveNetwork_begin ''missing'' goerliController))))))
       = goerli"
proof -
  have r: "networkConfigurations (state goerliController) = []"
    by (simp add: goerliController_def setProviderType_def setProviderType_begin_def Let_def
          exampleController_def defaultState_def)
  have s: "setActiveNetwork_begin ''missing'' goerliController
             = (Inl (NoSuchNetworkConfiguration ''missing''),
                goerliController\<lparr> previousProviderConfig := providerConfig (state goerliController) \<rparr>)"
    by (simp add: setActiveNetwork_begin_def getProperty_def objectPrototypeProperties_def
          Let_def r)
  show ?thesis
    unfolding s
    by (simp add: rollbackToPreviousProvider_def rollbackToPreviousProvider_begin_def
          goerliController_configs)
qed

text \<open>
  An id that names a property of \<open>Object.prototype\<close> passes the check instead: the call
  makes an \<open>rpc\<close> configuration without URL and chain id the active one and then throws
  for the missing chain id, after \<open>networkWillChange\<close> and the reset.
\<close>

lemma setActiveNetwork_inherited_name:
  "fst (setActiveNetwork_begin ''constructor'' goerliController) = Inl ChainIdRequired
   \<and> pc_type (providerConfig (state
        (snd (setActiveNetwork_begin ''constructor'' goerliController)))) = rpc
   \<and> networkStatus (state (snd (setActiveNetwork_begin ''constructor'' goerliController)))
       = Unknown"
proof -
  have r: "networkConfigurations (state goerliController) = []"
    by (simp add: goerliController_def setProviderType_def setProviderType_begin_def Let_def
          exampleController_def defaultState_def)
  show ?thesis
    by (simp add: setActiveNetwork_begin_def getProperty_def objectPrototypeProperties_def
          refreshNetwork_begin_def configureProvider_def resetNetwork_def Let_def r)
qed

section \<open>EIP-1559 compatibility on demand\<close>

text \<open>
  C9. When the flag for EIP-1559 is in the state, \<open>getEIP1559Compatibility\<close> returns it
  and leaves the controller as it is, sending nothing. When the flag is absent and no
  provider has been set, it returns false and leaves the controller as it is. When the
  flag is absent and a provider has been set, it sends the one request for the latest
  block, stores what the block says under 1559, and returns it.
\<close>

theorem getEIP1559Compatibility_cases:
  "(EIPS (networkDetails (state c)) 1559 = Some b \<longrightarrow>
      getEIP1559Compatibility r c = (Inr b, c))
   \<and> (EIPS (networkDetails (state c)) 1559 = None \<and> \<not> ethQuery c \<longrightarrow>
      getEIP1559Compatibility r c = (Inr False, c))
   \<and> (EIPS (networkDetails (state c)) 1559 = None \<and> ethQuery c
        \<and> determineEIP1559Compatibility r = Inr b \<longrightarrow>
      (\<exists>c'. getEIP1559Compatibility r c = (Inr b, c')
          \<and> state c' = (state c)
               \<lparr> networkDetails := \<lparr> EIPS = (EIPS (networkDetails (state c)))(1559 \<mapsto> b) \<rparr> \<rparr>
          \<and> trace c' = trace c @ [SendAsync eth_getBlockByNumber, StateChange (state c')]
          \<and> c' = c\<lparr> state := state c', trace := trace c' \<rparr>))"
  by (auto simp: getEIP1559Compatibility_def getEIP1559Compatibility_begin_def
        getEIP1559Compatibility_resume_def update_def Let_def)

theorem getEIP1559Compatibility_cases_witness:
  "EIPS (networkDetails (state goerliController)) 1559 = Some True
   \<and> getEIP1559Compatibility (Inr None) goerliController = (Inr True, goerliController)
   \<and> EIPS (networkDetails (state exampleController)) 1559 = None
   \<and> \<not> ethQuery exampleController
   \<and> getEIP1559Compatibility (Inr None) exampleController = (Inr False, exampleController)
   \<and> EIPS (networkDetails (state (snd (resetConnection_begin goerliController)))) 1559 = None
   \<and> ethQuery (snd (resetConnection_begin goerliController))
   \<and> fst (getEIP1559Compatibility (Inr None) (snd (resetConnection_begin goerliController)))
       = Inr False
   \<and> EIPS (networkDetails (state (snd
          (getEIP1559Compatibility (Inr None) (snd (resetConnection_begin goerliController))))))
        1559 = Some False"
proof -
  let ?g = "snd (resetConnection_begin goerliController)"
  have a1: "EIPS (networkDetails (state goerliController)) 1559 = Some True"
    by (simp add: goerliController_def exampleController_def exampleResponses_def
          defaultState_def run_defs Let_def)
  have a2: "EIPS (networkDetails (state exampleController)) 1559 = None"
           "\<not> ethQuery exampleController"
    by (simp_all add: exampleController_def defaultState_def)
  have e: "ethQuery goerliController"
    by (simp add: goerliController_def exampleController_def exampleResponses_def
          defaultState_def run_defs Let_def)
  have a3: "EIPS (networkDetails (state ?g)) 1559 = None" "ethQuery ?g"
    using e goerliController_configs(1)
    by (simp_all add: run_defs Let_def)
  have a4: "determineEIP1559Compatibility (Inr None) = Inr False"
    by (simp add: determineEIP1559Compatibility_def)
  from getEIP1559Compatibility_cases [of goerliController True "Inr None"]
       getEIP1559Compatibility_cases [of exampleController False "Inr None"]
       getEIP1559Compatibility_cases [of ?g False "Inr None"]
       a1 a2 a3 a4
  show ?thesis by auto
qed

section \<open>Probes overtaken by a switch\<close>

text \<open>
  C1. A switch completes (its refresh sequence has published \<open>networkDidChange\<close> and
  started the probe \<open>B\<close> of the new network) while earlier probes are suspended at
  their requests, still subscribed. Each of them is then marked, and resuming it changes
  nothing at all, whatever the network answered. So in whatever order the earlier
  probes and \<open>B\<close> resume, the controller ends as \<open>B\<close> alone leaves it, and the
  status, the network id and the EIP-1559 flag in the state are the ones \<open>B\<close>
  computed for the new configuration.
\<close>

theorem superseded_probes_are_discarded:
  assumes "operation_begin op c = (Inr (Some B), c')"
    and "list_all (\<lambda>(A, r). probe_id A \<in> set (subscribers c) \<and> probe_id A < nextListener c)
           (before @ after)"
  shows "list_all (\<lambda>(A, r). networkChanged c' (probe_id A) \<and> lookupNetwork_resume P A r c' = c')
           (before @ after)
       \<and> resumeAll P before c' = c'
       \<and> resumeAll P after (lookupNetwork_resume P B rB (resumeAll P before c'))
           = lookupNetwork_resume P B rB c'
       \<and> isInfura B = isInfuraProviderType (pc_type (providerConfig (state c')))
       \<and> networkStatus (state (lookupNetwork_resume P B rB c'))
           = fst (lookupOutcome P (isInfura B) rB)
       \<and> networkId (state (lookupNetwork_resume P B rB c'))
           = fst (snd (lookupOutcome P (isInfura B) rB))
       \<and> EIPS (networkDetails (state (lookupNetwork_resume P B rB c'))) 1559
           = snd (snd (lookupOutcome P (isInfura B) rB))"
proof -
  note ok = operation_begin_ok [OF assms(1)]
  have stale: "list_all (\<lambda>(A, r). networkChanged c' (probe_id A)) (before @ after)"
    by (rule list.pred_mono_strong [OF assms(2)]) (auto simp: ok(2))
  then have s1: "list_all (\<lambda>(A, r). networkChanged c' (probe_id A) \<and> lookupNetwork_resume P A r c' = c')
           (before @ after)"
    by (rule list.pred_mono_strong) (auto simp: lookupNetwork_resume_stale)
  from stale have sb: "list_all (\<lambda>(A, r). networkChanged c' (probe_id A)) before"
    and sa: "list_all (\<lambda>(A, r). networkChanged c' (probe_id A)) after"
    by simp_all
  have s2: "resumeAll P before c' = c'" using sb by (rule resumeAll_stale)
  have fresh: "\<not> networkChanged c' (probe_id B)" by (simp add: ok(1,2))
  obtain st nid eip where o: "lookupOutcome P (isInfura B) rB = (st, nid, eip)"
    by (cases "lookupOutcome P (isInfura B) rB")
  note commit = lookupNetwork_resume_commit [OF fresh o]
  have "list_all (\<lambda>(A, r). networkChanged (lookupNetwork_resume P B rB c') (probe_id A)) after"
    using sa by (simp add: commit(3))
  then have s3: "resumeAll P after (lookupNetwork_resume P B rB c') = lookupNetwork_resume P B rB c'"
    by (rule resumeAll_stale)
  have v: "networkStatus (state (lookupNetwork_resume P B rB c'))
             = fst (lookupOutcome P (isInfura B) rB)"
          "networkId (state (lookupNetwork_resume P B rB c'))
             = fst (snd (lookupOutcome P (isInfura B) rB))"
          "EIPS (networkDetails (state (lookupNetwork_resume P B rB c'))) 1559
             = snd (snd (lookupOutcome P (isInfura B) rB))"
    by (simp_all add: commit(1) o commitLookup_def)
  show ?thesis
    unfolding s2 by (intro conjI s1 s3 ok(3) v refl)
qed


lemma goerliController_run:
  "ethQuery goerliController"
  "subscribers goerliController = []"
  "nextListener goerliController = 1"
  "networkConfigurations (state goerliController) = []"
  by (simp_all add: goerliController_def exampleController_def exampleResponses_def
        defaultState_def run_defs publish_def update_def Let_def)

lemma probingController_run:
  "lookupNetwork_begin goerliController = (Some probeA, probingController)"
  "subscribers probingController = [Suc 0]"
  "nextListener probingController = Suc (Suc 0)"
  "\<not> networkChanged probingController (Suc 0)"
  "probe_id probeA = Suc 0"
  by (simp_all add: probingController_def probeA_def lookupNetwork_begin_def Let_def
        goerliController_run goerliController_configs)

lemma switchedController_run:
  "operation_begin (SetProviderType sepolia) probingController
     = (Inr (Some probeB), switchedController)"
proof -
  have "fst (operation_begin (SetProviderType sepolia) probingController) = Inr (Some probeB)"
    by (simp add: probeB_def setProviderType_begin_def refreshNetwork_begin_def
          configureProvider_def setupInfuraProvider_def updateProvider_def
          registerProvider_def setProviderAndBlockTracker_def createNetworkClient_def
          lookupNetwork_begin_def Let_def probingController_run split: prod.splits)
  then show ?thesis by (simp add: switchedController_def prod_eq_iff)
qed

theorem superseded_probes_are_discarded_witness:
  "operation_begin (SetProviderType sepolia) probingController
     = (Inr (Some probeB), switchedController)
   \<and> probe_id probeA \<in> set (subscribers probingController)
   \<and> lookupNetwork_resume exampleLibrary probeA exampleResponses switchedController
       = switchedController
   \<and> networkStatus (state
        (resumeAll exampleLibrary [(probeA, exampleResponses)]
           (lookupNetwork_resume exampleLibrary probeB sepoliaResponses
              (resumeAll exampleLibrary [] switchedController)))) = Available
   \<and> networkId (state
        (resumeAll exampleLibrary [(probeA, exampleResponses)]
           (lookupNetwork_resume exampleLibrary probeB sepoliaResponses
              (resumeAll exampleLibrary [] switchedController)))) = Some ''11155111''
   \<and> EIPS (networkDetails (state
        (resumeAll exampleLibrary [(probeA, exampleResponses)]
           (lookupNetwork_resume exampleLibrary probeB sepoliaResponses
              (resumeAll exampleLibrary [] switchedController))))) 1559 = Some False"
proof -
  have h2: "list_all (\<lambda>(A, r). probe_id A \<in> set (subscribers probingController)
                        \<and> probe_id A < nextListener probingController)
              ([] @ [(probeA, exampleResponses)])"
    by (simp add: probingController_run)
  have o: "lookupOutcome exampleLibrary (isInfura probeB) sepoliaResponses
             = (Available, Some ''11155111'', Some False)"
    by (simp add: lookupOutcome_def promiseAll_def getNetworkId_def sepoliaResponses_def
          determineEIP1559Compatibility_def convertNetworkId_def isStrictHexString_def
          isDigit_def)
  note t = superseded_probes_are_discarded
             [OF switchedController_run(1) h2, of exampleLibrary sepoliaResponses]
  have t1: "lookupNetwork_resume exampleLibrary probeA exampleResponses switchedController
              = switchedController"
    using t [THEN conjunct1] by simp
  note t3 = t [THEN conjunct2, THEN conjunct2, THEN conjunct1]
  note t5 = t [THEN conjunct2, THEN conjunct2, THEN conjunct2, THEN conjunct2]
  show ?thesis
    unfolding t3 using t1 t5 switchedController_run
    by (simp add: o probingController_run)
qed

lemma convertNetworkId_error: "convertNetworkId P v = Inl e \<Longrightarrow> e = invalidNetworkIdError"
  by (auto simp: convertNetworkId_def split: JsValue.splits if_splits)

text \<open>
  C3, as the code has it. A probe that fails and is not superseded stores
  \<open>Unavailable\<close> when the error has a \<open>code\<close> property, is not the blocked payload of
  an Infura network and its code is not the internal JSON-RPC error code. An error
  without a \<open>code\<close> property stores \<open>Unknown\<close>; the error thrown for a network id that
  cannot be read is such an error.
\<close>

theorem probe_failure_status:
  assumes "\<not> networkChanged c (probe_id p)" and "promiseAll P resp = Inl e"
  shows "(isErrorWithCode e
            \<and> \<not> isBlockedBody (responseBody P (isInfura p) (err_message e))
            \<and> err_code e \<noteq> Some (JsNumber errorCodes_rpc_internal) \<longrightarrow>
          networkStatus (state (lookupNetwork_resume P p resp c)) = Unavailable)
       \<and> (\<not> isErrorWithCode e \<longrightarrow>
          networkStatus (state (lookupNetwork_resume P p resp c)) = Unknown)
       \<and> ((\<exists>v. convertNetworkId P v = Inl e) \<longrightarrow>
          networkStatus (state (lookupNetwork_resume P p resp c)) = Unknown)"
proof -
  have o: "lookupOutcome P (isInfura p) resp = (failureStatus P (isInfura p) e, None, None)"
    using assms(2) by (simp add: lookupOutcome_def)
  have s: "networkStatus (state (lookupNetwork_resume P p resp c)) = failureStatus P (isInfura p) e"
    by (simp add: lookupNetwork_resume_commit(1) [OF assms(1) o] commitLookup_def)
  have a: "isErrorWithCode e
            \<and> \<not> isBlockedBody (responseBody P (isInfura p) (err_message e))
            \<and> err_code e \<noteq> Some (JsNumber errorCodes_rpc_internal) \<longrightarrow>
          failureStatus P (isInfura p) e = Unavailable"
    by (cases e rule: isErrorWithCode.cases) (auto simp: failureStatus_def)
  have b: "\<not> isErrorWithCode e \<longrightarrow> failureStatus P (isInfura p) e = Unknown"
    by (cases e rule: isErrorWithCode.cases) (auto simp: failureStatus_def)
  have c: "(\<exists>v. convertNetworkId P v = Inl e) \<longrightarrow> failureStatus P (isInfura p) e = Unknown"
    by (auto dest!: convertNetworkId_error simp: invalidNetworkIdError_def failureStatus_def)
  show ?thesis unfolding s using a b c by blast
qed

theorem probe_failure_status_witness:
  "\<not> networkChanged probingController (probe_id probeA)
   \<and> promiseAll exampleLibrary failedResponses
       = Inl (ErrorObject (Some (JsNumber ''-32601'')) (Some (JsString ''not found'')))
   \<and> networkStatus (state
        (lookupNetwork_resume exampleLibrary probeA failedResponses probingController)) = Unavailable
   \<and> promiseAll exampleLibrary invalidIdResponses = Inl invalidNetworkIdError
   \<and> convertNetworkId exampleLibrary (JsString ''invalid'') = Inl invalidNetworkIdError
   \<and> networkStatus (state
        (lookupNetwork_resume exampleLibrary probeA invalidIdResponses probingController)) = Unknown"
proof -
  have h1: "\<not> networkChanged probingController (probe_id probeA)"
    by (simp add: probingController_run)
  have h2: "promiseAll exampleLibrary failedResponses
       = Inl (ErrorObject (Some (JsNumber ''-32601'')) (Some (JsString ''not found'')))"
    by (simp add: promiseAll_def failedResponses_def getNetworkId_def
          determineEIP1559Compatibility_def)
  have h3: "convertNetworkId exampleLibrary (JsString ''invalid'') = Inl invalidNetworkIdError"
    by (simp add: convertNetworkId_def isStrictHexString_def isDigit_def)
  have h4: "promiseAll exampleLibrary invalidIdResponses = Inl invalidNetworkIdError"
    by (simp add: promiseAll_def invalidIdResponses_def getNetworkId_def h3
          determineEIP1559Compatibility_def)
  have h5: "\<not> isBlockedBody (responseBody exampleLibrary (isInfura probeA)
               (err_message (ErrorObject (Some (JsNumber ''-32601'')) (Some (JsString ''not found'')))))"
    by (simp add: responseBody_def exampleLibrary_def exampleParse_def)
  from probe_failure_status [OF h1 h2]
       probe_failure_status [OF h1 h4]
       h1 h2 h3 h4 h5
  show ?thesis by (auto simp: errorCodes_rpc_internal_def)
qed

text \<open>
  C3, as stated, fails: on goerli a \<open>net_version\<close> result that is no network id makes
  the probe fail with an error that is neither the blocked payload nor carries the
  internal error code, and the status stored is \<open>Unknown\<close>, not \<open>Unavailable\<close>.
\<close>

theorem invalid_network_id_counterexample:
  "promiseAll exampleLibrary invalidIdResponses = Inl invalidNetworkIdError
   \<and> \<not> isBlockedBody (responseBody exampleLibrary True (err_message invalidNetworkIdError))
   \<and> err_code invalidNetworkIdError \<noteq> Some (JsNumber errorCodes_rpc_internal)
   \<and> networkStatus (state goerliController) = Available
   \<and> networkStatus (state (lookupNetwork exampleLibrary invalidIdResponses goerliController))
       = Unknown
   \<and> networkStatus (state (lookupNetwork exampleLibrary invalidIdResponses goerliController))
       \<noteq> Unavailable"
proof -
  have h3: "convertNetworkId exampleLibrary (JsString ''invalid'') = Inl invalidNetworkIdError"
    by (simp add: convertNetworkId_def isStrictHexString_def isDigit_def)
  have h4: "promiseAll exampleLibrary invalidIdResponses = Inl invalidNetworkIdError"
    by (simp add: promiseAll_def invalidIdResponses_def getNetworkId_def h3
          determineEIP1559Compatibility_def)
  have o: "lookupOutcome exampleLibrary True invalidIdResponses = (Unknown, None, None)"
    by (simp add: lookupOutcome_def h4 failureStatus_def invalidNetworkIdError_def)
  have "networkStatus (state (lookupNetwork exampleLibrary invalidIdResponses goerliController))
          = Unknown"
    by (simp add: lookupNetwork_def probingController_run lookupNetwork_resume_def Let_def
          probeA_def o commitLookup_def)
  then show ?thesis
    using h4 goerliController_configs(3)
    by (simp add: invalidNetworkIdError_def responseBody_def exampleLibrary_def exampleParse_def)
qed

section \<open>Notifications of the probe\<close>

lemma published_map [simp]: "published (map (\<lambda>e. Publish e s) evs) = evs"
  by (induction evs) simp_all

lemma lookupNetwork_begin_isInfura:
  "lookupNetwork_begin c = (Some p, c1) \<Longrightarrow>
     isInfura p = isInfuraProviderType (pc_type (providerConfig (state c)))"
  by (auto simp: lookupNetwork_begin_def Let_def split: if_splits)

text \<open>
  C4. A probe that was started under some configuration and is not superseded when it
  resumes publishes, after storing its status: on an Infura network exactly one
  \<open>infuraIsBlocked\<close> and no \<open>infuraIsUnblocked\<close> when the status is \<open>Blocked\<close>,
  exactly one \<open>infuraIsUnblocked\<close> and no \<open>infuraIsBlocked\<close> when it is
  \<open>Available\<close>; on any other network exactly one \<open>infuraIsUnblocked\<close> and no
  \<open>infuraIsBlocked\<close>, whatever the probe found.
\<close>

theorem lookupNetwork_notifications:
  assumes "lookupNetwork_begin c = (Some p, c1)" and "\<not> networkChanged c2 (probe_id p)"
  shows "(isInfuraProviderType (pc_type (providerConfig (state c)))
            \<and> networkStatus (state (lookupNetwork_resume P p resp c2)) = Blocked \<longrightarrow>
          count_list (published (drop (length (trace c2))
             (trace (lookupNetwork_resume P p resp c2)))) infuraIsBlocked = 1
          \<and> count_list (published (drop (length (trace c2))
             (trace (lookupNetwork_resume P p resp c2)))) infuraIsUnblocked = 0)
       \<and> (isInfuraProviderType (pc_type (providerConfig (state c)))
            \<and> networkStatus (state (lookupNetwork_resume P p resp c2)) = Available \<longrightarrow>
          count_list (published (drop (length (trace c2))
             (trace (lookupNetwork_resume P p resp c2)))) infuraIsUnblocked = 1
          \<and> count_list (published (drop (length (trace c2))
             (trace (lookupNetwork_resume P p resp c2)))) infuraIsBlocked = 0)
       \<and> (\<not> isInfuraProviderType (pc_type (providerConfig (state c))) \<longrightarrow>
          count_list (published (drop (length (trace c2))
             (trace (lookupNetwork_resume P p resp c2)))) infuraIsUnblocked = 1
          \<and> count_list (published (drop (length (trace c2))
             (trace (lookupNetwork_resume P p resp c2)))) infuraIsBlocked = 0)"
proof -
  note i = lookupNetwork_begin_isInfura [OF assms(1)]
  obtain st nid eip where o: "lookupOutcome P (isInfura p) resp = (st, nid, eip)"
    by (cases "lookupOutcome P (isInfura p) resp")
  note commit = lookupNetwork_resume_commit [OF assms(2) o]
  have s: "networkStatus (state (lookupNetwork_resume P p resp c2)) = st"
    by (simp add: commit(1) commitLookup_def)
  have e: "published (drop (length (trace c2)) (trace (lookupNetwork_resume P p resp c2)))
             = notifications (isInfura p) st"
    by (simp add: commit(2))
  show ?thesis
    unfolding s e i by (simp add: notifications_def)
qed

lemma customActiveController_run:
  "ethQuery customActiveController"
  "pc_type (providerConfig (state customActiveController)) = rpc"
  "nextListener customActiveController = Suc 0"
  "lookupNetwork_begin customActiveController = (Some probeD, customProbingController)"
  "\<not> networkChanged customProbingController (Suc 0)"
  "probe_id probeD = Suc 0"
  by (simp_all add: customProbingController_def probeD_def customActiveController_def
        registryController_def exampleConfiguration_def exampleController_def defaultState_def
        setActiveNetwork_begin_def getProperty_def refreshNetwork_begin_def configureProvider_def
        setupStandardProvider_def updateProvider_def registerProvider_def
        setProviderAndBlockTracker_def createNetworkClient_def lookupNetwork_begin_def Let_def)

theorem lookupNetwork_notifications_witness:
  "lookupNetwork_begin goerliController = (Some probeA, probingController)
   \<and> \<not> networkChanged probingController (probe_id probeA)
   \<and> isInfuraProviderType (pc_type (providerConfig (state goerliController)))
   \<and> networkStatus (state
        (lookupNetwork_resume exampleLibrary probeA blockedResponses probingController)) = Blocked
   \<and> count_list (published (drop (length (trace probingController))
        (trace (lookupNetwork_resume exampleLibrary probeA blockedResponses probingController))))
        infuraIsBlocked = 1
   \<and> count_list (published (drop (length (trace probingController))
        (trace (lookupNetwork_resume exampleLibrary probeA blockedResponses probingController))))
        infuraIsUnblocked = 0
   \<and> networkStatus (state
        (lookupNetwork_resume exampleLibrary probeA exampleResponses probingController)) = Available
   \<and> count_list (published (drop (length (trace probingController))
        (trace (lookupNetwork_resume exampleLibrary probeA exampleResponses probingController))))
        infuraIsUnblocked = 1
   \<and> count_list (published (drop (length (trace probingController))
        (trace (lookupNetwork_resume exampleLibrary probeA exampleResponses probingController))))
        infuraIsBlocked = 0
   \<and> lookupNetwork_begin customActiveController = (Some probeD, customProbingController)
   \<and> \<not> networkChanged customProbingController (probe_id probeD)
   \<and> \<not> isInfuraProviderType (pc_type (providerConfig (state customActiveController)))
   \<and> networkStatus (state
        (lookupNetwork_resume exampleLibrary probeD failedResponses customProbingController))
        = Unavailable
   \<and> count_list (published (drop (length (trace customProbingController))
        (trace (lookupNetwork_resume exampleLibrary probeD failedResponses customProbingController))))
        infuraIsUnblocked = 1
   \<and> count_list (published (drop (length (trace customProbingController))
        (trace (lookupNetwork_resume exampleLibrary probeD failedResponses customProbingController))))
        infuraIsBlocked = 0"
proof -
  have h1: "lookupNetwork_begin goerliController = (Some probeA, probingController)"
    by (rule probingController_run)
  have h2: "\<not> networkChanged probingController (probe_id probeA)"
    by (simp add: probingController_run)
  have h3: "lookupNetwork_begin customActiveController = (Some probeD, customProbingController)"
    by (rule customActiveController_run)
  have h4: "\<not> networkChanged customProbingController (probe_id probeD)"
    by (simp add: customActiveController_run)
  have i1: "isInfuraProviderType (pc_type (providerConfig (state goerliController)))"
    by (simp add: goerliController_configs)
  have i2: "\<not> isInfuraProviderType (pc_type (providerConfig (state customActiveController)))"
    by (simp add: customActiveController_run)
  have o1: "lookupOutcome exampleLibrary (isInfura probeA) blockedResponses = (Blocked, None, None)"
    by (simp add: lookupOutcome_def promiseAll_def blockedResponses_def getNetworkId_def
          determineEIP1559Compatibility_def failureStatus_def responseBody_def probeA_def
          exampleLibrary_def exampleParse_def INFURA_BLOCKED_KEY_def)
  have o2: "lookupOutcome exampleLibrary (isInfura probeA) exampleResponses
              = (Available, Some ''5'', Some True)"
    by (simp add: lookupOutcome_def promiseAll_def exampleResponses_def getNetworkId_def
          determineEIP1559Compatibility_def convertNetworkId_def isStrictHexString_def
          isDigit_def)
  have o3: "lookupOutcome exampleLibrary (isInfura probeD) failedResponses
              = (Unavailable, None, None)"
    by (simp add: lookupOutcome_def promiseAll_def failedResponses_def getNetworkId_def
          determineEIP1559Compatibility_def failureStatus_def responseBody_def probeD_def
          errorCodes_rpc_internal_def)
  have s1: "networkStatus (state
        (lookupNetwork_resume exampleLibrary probeA blockedResponses probingController)) = Blocked"
    by (simp add: lookupNetwork_resume_commit(1) [OF h2 o1] commitLookup_def)
  have s2: "networkStatus (state
        (lookupNetwork_resume exampleLibrary probeA exampleResponses probingController)) = Available"
    by (simp add: lookupNetwork_resume_commit(1) [OF h2 o2] commitLookup_def)
  have s3: "networkStatus (state
        (lookupNetwork_resume exampleLibrary probeD failedResponses customProbingController))
        = Unavailable"
    by (simp add: lookupNetwork_resume_commit(1) [OF h4 o3] commitLookup_def)
  from lookupNetwork_notifications [OF h1 h2, of exampleLibrary blockedResponses]
       lookupNetwork_notifications [OF h1 h2, of exampleLibrary exampleResponses]
       lookupNetwork_notifications [OF h3 h4, of exampleLibrary failedResponses]
       h1 h2 h3 h4 i1 i2 s1 s2 s3
  show ?thesis by simp
qed

section \<open>Order of the refresh sequence\<close>

text \<open>
  C6. The refresh sequence, which every switch, reset and rollback runs, acts in this
  order: it publishes \<open>networkWillChange\<close> (subscribers still read the old state),
  resets the network id, the status and the network details, builds the client and
  puts it behind both proxies, publishes \<open>networkDidChange\<close>, and only then sends the
  probe's two requests. From the reset until the probe stores its result, the state
  every action carries has the status \<open>Unknown\<close>, no network id and no EIP flags; the
  next change of state is the probe's, and a probe of the network before, resumed in
  between, changes nothing. When the client cannot be built the sequence stops after
  the reset, with the proxies as they were.
\<close>

theorem refresh_sequence_order:
  "case refreshNetwork_begin c of
     (Inl e, c') \<Rightarrow>
       trace c' = trace c @
         [Publish networkWillChange (state c), StateChange (resetNetwork (state c))]
       \<and> providerProxy c' = providerProxy c \<and> blockTrackerProxy c' = blockTrackerProxy c
   | (Inr None, c') \<Rightarrow> False
   | (Inr (Some p), c') \<Rightarrow>
       (\<exists>cl. trace c' = trace c @
                [Publish networkWillChange (state c), StateChange (resetNetwork (state c)),
                 CreateNetworkClient cl, SetTarget cl,
                 Publish networkDidChange (resetNetwork (state c)),
                 SendAsync net_version, SendAsync eth_getBlockByNumber]
              \<and> providerProxy c' = Some cl \<and> blockTrackerProxy c' = Some cl)
       \<and> state c' = resetNetwork (state c)
       \<and> networkStatus (resetNetwork (state c)) = Unknown
       \<and> networkId (resetNetwork (state c)) = None
       \<and> EIPS (networkDetails (resetNetwork (state c))) = Map.empty
       \<and> (\<forall>resp. \<exists>evs.
            trace (lookupNetwork_resume P p resp c') =
              trace c' @ StateChange (state (lookupNetwork_resume P p resp c'))
                # map (\<lambda>e. Publish e (state (lookupNetwork_resume P p resp c'))) evs)
       \<and> (\<forall>A r. probe_id A \<in> set (subscribers c) \<and> probe_id A < nextListener c \<longrightarrow>
            lookupNetwork_resume P A r c' = c')"
proof (cases "fst (refreshNetwork_begin c)")
  case (Inl e)
  from refreshNetwork_begin_fail [OF Inl] Inl
  have "refreshNetwork_begin c =
          (Inl e, c\<lparr> state := resetNetwork (state c),
                     trace := trace c @
                       [Publish networkWillChange (state c), StateChange (resetNetwork (state c))] \<rparr>)"
    by (simp add: prod_eq_iff)
  then show ?thesis by simp
next
  case (Inr po)
  then obtain cl where r:
    "refreshNetwork_begin c =
       (Inr (Some \<lparr> probe_id = nextListener c,
                    isInfura = isInfuraProviderType (pc_type (providerConfig (state c))) \<rparr>),
        c\<lparr> state := resetNetwork (state c), ethQuery := True,
           providerProxy := Some cl, blockTrackerProxy := Some cl,
           trace := trace c @
             [Publish networkWillChange (state c), StateChange (resetNetwork (state c)),
              CreateNetworkClient cl, SetTarget cl,
              Publish networkDidChange (resetNetwork (state c)),
              SendAsync net_version, SendAsync eth_getBlockByNumber],
           subscribers := [nextListener c],
           networkChanged :=
             (\<lambda>i. networkChanged c i \<or> i \<in> set (subscribers c))(nextListener c := False),
           nextListener := Suc (nextListener c) \<rparr>)"
    by (rule refreshNetwork_begin_ok)
  define p where "p = \<lparr> probe_id = nextListener c,
               isInfura = isInfuraProviderType (pc_type (providerConfig (state c))) \<rparr>"
  define c' where "c' = c\<lparr> state := resetNetwork (state c), ethQuery := True,
           providerProxy := Some cl, blockTrackerProxy := Some cl,
           trace := trace c @
             [Publish networkWillChange (state c), StateChange (resetNetwork (state c)),
              CreateNetworkClient cl, SetTarget cl,
              Publish networkDidChange (resetNetwork (state c)),
              SendAsync net_version, SendAsync eth_getBlockByNumber],
           subscribers := [nextListener c],
           networkChanged :=
             (\<lambda>i. networkChanged c i \<or> i \<in> set (subscribers c))(nextListener c := False),
           nextListener := Suc (nextListener c) \<rparr>"
  have r': "refreshNetwork_begin c = (Inr (Some p), c')"
    unfolding p_def c'_def by (rule r)
  have fresh: "\<not> networkChanged c' (probe_id p)" by (simp add: c'_def p_def)
  have resume: "\<exists>evs. trace (lookupNetwork_resume P p resp c') =
              trace c' @ StateChange (state (lookupNetwork_resume P p resp c'))
                # map (\<lambda>e. Publish e (state (lookupNetwork_resume P p resp c'))) evs" for resp
  proof -
    obtain st nid eip where o: "lookupOutcome P (isInfura p) resp = (st, nid, eip)"
      by (cases "lookupOutcome P (isInfura p) resp")
    note commit = lookupNetwork_resume_commit [OF fresh o]
    show ?thesis unfolding commit(1) commit(2) by blast
  qed
  have t: "\<exists>cl. trace c' = trace c @
                [Publish networkWillChange (state c), StateChange (resetNetwork (state c)),
                 CreateNetworkClient cl, SetTarget cl,
                 Publish networkDidChange (resetNetwork (state c)),
                 SendAsync net_version, SendAsync eth_getBlockByNumber]
              \<and> providerProxy c' = Some cl \<and> blockTrackerProxy c' = Some cl"
    by (rule exI [of _ cl]) (simp add: c'_def)
  have s: "state c' = resetNetwork (state c)" by (simp add: c'_def)
  have old: "lookupNetwork_resume P A r c' = c'"
    if "probe_id A \<in> set (subscribers c) \<and> probe_id A < nextListener c" for A r
    using that by (intro lookupNetwork_resume_stale) (simp add: c'_def)
  show ?thesis
    unfolding r' using t s resume old by simp
qed

theorem refresh_sequence_order_witness:
  "fst (refreshNetwork_begin probingController) = Inr (Some probeB)
   \<and> trace (snd (refreshNetwork_begin probingController)) = trace probingController @
       [Publish networkWillChange (state probingController),
        StateChange (resetNetwork (state probingController)),
        CreateNetworkClient (InfuraClient goerli ''project''),
        SetTarget (InfuraClient goerli ''project''),
        Publish networkDidChange (resetNetwork (state probingController)),
        SendAsync net_version, SendAsync eth_getBlockByNumber]
   \<and> networkStatus (state probingController) = Available
   \<and> networkStatus (state (snd (refreshNetwork_begin probingController))) = Unknown
   \<and> probe_id probeA \<in> set (subscribers probingController)
   \<and> probe_id probeA < nextListener probingController
   \<and> lookupNetwork_resume exampleLibrary probeA exampleResponses
        (snd (refreshNetwork_begin probingController))
       = snd (refreshNetwork_begin probingController)
   \<and> fst (refreshNetwork_begin customController) = Inl ChainIdRequired
   \<and> trace (snd (refreshNetwork_begin customController)) =
       [Publish networkWillChange (state customController),
        StateChange (resetNetwork (state customController))]
   \<and> providerProxy (snd (refreshNetwork_begin customController)) = None"
proof -
  let ?g = "refreshNetwork_begin probingController"
  let ?k = "refreshNetwork_begin customController"
  have pid: "infuraProjectId goerliController = ''project''"
    by (simp add: goerliController_def setProviderType_def setProviderType_begin_def
          await_lookup_def refreshNetwork_begin_def configureProvider_def
          setupInfuraProvider_def updateProvider_def registerProvider_def
          setProviderAndBlockTracker_def createNetworkClient_def lookupNetwork_begin_def
          lookupNetwork_resume_def exampleController_def Let_def split: prod.splits)
  have pc: "state probingController = state goerliController"
           "infuraProjectId probingController = infuraProjectId goerliController"
    by (simp_all add: probingController_def lookupNetwork_begin_def Let_def)
  have fg: "fst ?g = Inr (Some probeB)"
    by (simp add: refreshNetwork_begin_def configureProvider_def setupInfuraProvider_def
          updateProvider_def registerProvider_def setProviderAndBlockTracker_def
          createNetworkClient_def lookupNetwork_begin_def Let_def probeB_def pc
          goerliController_configs probingController_run split: prod.splits)
  have pg: "providerProxy (snd ?g) = Some (InfuraClient goerli ''project'')"
    by (simp add: refreshNetwork_begin_def configureProvider_def setupInfuraProvider_def
          updateProvider_def registerProvider_def setProviderAndBlockTracker_def
          createNetworkClient_def lookupNetwork_begin_def Let_def pid pc
          goerliController_configs probingController_run split: prod.splits)
  have hg: "?g = (Inr (Some probeB), snd ?g)" using fg by (simp add: prod_eq_iff)
  have fk: "fst ?k = Inl ChainIdRequired"
    by (simp add: refreshNetwork_begin_def configureProvider_def customController_def Let_def
          resetNetwork_def)
  have hk: "?k = (Inl ChainIdRequired, snd ?k)" using fk by (simp add: prod_eq_iff)
  have tk: "trace customController = []" "providerProxy customController = None"
    by (simp_all add: customController_def)
  have sub: "probe_id probeA \<in> set (subscribers probingController)
             \<and> probe_id probeA < nextListener probingController"
    by (simp add: probingController_run)
  from refresh_sequence_order [of probingController exampleLibrary]
  have g: "(\<exists>cl. trace (snd ?g) = trace probingController @
                [Publish networkWillChange (state probingController),
                 StateChange (resetNetwork (state probingController)),
                 CreateNetworkClient cl, SetTarget cl,
                 Publish networkDidChange (resetNetwork (state probingController)),
                 SendAsync net_version, SendAsync eth_getBlockByNumber]
              \<and> providerProxy (snd ?g) = Some cl \<and> blockTrackerProxy (snd ?g) = Some cl)
       \<and> state (snd ?g) = resetNetwork (state probingController)
       \<and> (\<forall>A r. probe_id A \<in> set (subscribers probingController)
                   \<and> probe_id A < nextListener probingController \<longrightarrow>
            lookupNetwork_resume exampleLibrary A r (snd ?g) = snd ?g)"
    by (subst (asm) hg) simp
  from g sub
  have old: "lookupNetwork_resume exampleLibrary probeA exampleResponses (snd ?g) = snd ?g"
    by blast
  from refresh_sequence_order [of customController exampleLibrary]
  have k: "trace (snd ?k) = trace customController @
         [Publish networkWillChange (state customController),
          StateChange (resetNetwork (state customController))]
        \<and> providerProxy (snd ?k) = providerProxy customController"
    by (subst (asm) hk) simp
  have av: "networkStatus (state probingController) = Available"
    by (simp add: pc goerliController_configs)
  from g pg k fg fk tk av sub old show ?thesis
    by auto
qed

section \<open>Adding and updating network configurations\<close>

lemma refreshNetwork_begin_track:
  "filter isTrackMetaMetricsEvent (trace (snd (refreshNetwork_begin c)))
     = filter isTrackMetaMetricsEvent (trace c)"
proof (cases "fst (refreshNetwork_begin c)")
  case (Inl e)
  then show ?thesis by (simp add: refreshNetwork_begin_fail)
next
  case (Inr po)
  then obtain cl where
    "refreshNetwork_begin c =
       (Inr (Some \<lparr> probe_id = nextListener c,
                    isInfura = isInfuraProviderType (pc_type (providerConfig (state c))) \<rparr>),
        c\<lparr> state := resetNetwork (state c), ethQuery := True,
           providerProxy := Some cl, blockTrackerProxy := Some cl,
           trace := trace c @
             [Publish networkWillChange (state c), StateChange (resetNetwork (state c)),
              CreateNetworkClient cl, SetTarget cl,
              Publish networkDidChange (resetNetwork (state c)),
              SendAsync net_version, SendAsync eth_getBlockByNumber],
           subscribers := [nextListener c],
           networkChanged :=
             (\<lambda>i. networkChanged c i \<or> i \<in> set (subscribers c))(nextListener c := False),
           nextListener := Suc (nextListener c) \<rparr>)"
    by (rule refreshNetwork_begin_ok)
  then show ?thesis by simp
qed

lemma setActiveNetwork_begin_kept:
  "networkConfigurations (state (snd (setActiveNetwork_begin i c))) = networkConfigurations (state c)"
  "filter isTrackMetaMetricsEvent (trace (snd (setActiveNetwork_begin i c)))
     = filter isTrackMetaMetricsEvent (trace c)"
  by (simp_all add: setActiveNetwork_begin_def Let_def refreshNetwork_begin_track
        split: Property.splits)

lemma upsertNetworkConfiguration_begin_ok:
  assumes "upsertNetworkConfiguration_begin L R cfg opts c = (Inr (i, po), c')"
  obtains chainId url ticker where
    "nc_chainId cfg = Some chainId" "nc_rpcUrl cfg = Some url" "nc_ticker cfg = Some ticker"
    "i = (case map_option nc_id (findByRpcUrl L url (networkConfigurations (state c))) of
            None \<Rightarrow> R | Some j \<Rightarrow> if j = [] then R else j)"
    "networkConfigurations (state c') =
       AList.update i
         \<lparr> nc_rpcUrl = Some url, nc_chainId = Some chainId, nc_ticker = Some ticker,
           nc_nickname = nc_nickname cfg, nc_rpcPrefs = nc_rpcPrefs cfg, nc_id = i \<rparr>
         (networkConfigurations (state c))"
    "filter isTrackMetaMetricsEvent (trace c') =
       filter isTrackMetaMetricsEvent (trace c) @
         (if map_option nc_id (findByRpcUrl L url (networkConfigurations (state c))) = None
             \<or> map_option nc_id (findByRpcUrl L url (networkConfigurations (state c))) = Some []
          then [TrackMetaMetricsEvent
                  \<lparr> mm_event = ''Custom Network Added'', mm_category = ''Network'',
                    mm_referrer = referrer opts, mm_chain_id = chainId, mm_symbol = ticker,
                    mm_source = source opts \<rparr>]
          else [])"
proof -
  from assms obtain chainId where 1: "nc_chainId cfg = Some chainId"
    by (cases "nc_chainId cfg") (simp_all add: upsertNetworkConfiguration_begin_def)
  from assms 1 have 2: "isStrictHexString chainId" "isSafeChainId chainId"
    by (auto simp: upsertNetworkConfiguration_begin_def split: if_splits)
  from assms 1 2 obtain url where 3: "nc_rpcUrl cfg = Some url"
    by (cases "nc_rpcUrl cfg") (simp_all add: upsertNetworkConfiguration_begin_def)
  from assms 1 2 3 have 4: "url \<noteq> []" "\<not> (referrer opts = [] \<or> source opts = [])" "isValidURL L url"
    by (auto simp: upsertNetworkConfiguration_begin_def split: if_splits)
  from assms 1 2 3 4 obtain ticker where 5: "nc_ticker cfg = Some ticker"
    by (cases "nc_ticker cfg") (simp_all add: upsertNetworkConfiguration_begin_def)
  from assms 1 2 3 4 5 have 6: "ticker \<noteq> []"
    by (auto simp: upsertNetworkConfiguration_begin_def split: if_splits)
  let ?old = "map_option nc_id (findByRpcUrl L url (networkConfigurations (state c)))"
  let ?i = "case ?old of None \<Rightarrow> R | Some j \<Rightarrow> if j = [] then R else j"
  let ?entry = "\<lparr> nc_rpcUrl = Some url, nc_chainId = Some chainId, nc_ticker = Some ticker,
           nc_nickname = nc_nickname cfg, nc_rpcPrefs = nc_rpcPrefs cfg, nc_id = ?i \<rparr>"
  let ?c1 = "update (\<lambda>s. s\<lparr> networkConfigurations :=
                 AList.update ?i ?entry (networkConfigurations (state c)) \<rparr>) c"
  let ?ev = "TrackMetaMetricsEvent
                  \<lparr> mm_event = ''Custom Network Added'', mm_category = ''Network'',
                    mm_referrer = referrer opts, mm_chain_id = chainId, mm_symbol = ticker,
                    mm_source = source opts \<rparr>"
  let ?c2 = "if ?old = None \<or> ?old = Some [] then ?c1\<lparr> trace := trace ?c1 @ [?ev] \<rparr> else ?c1"
  have u: "upsertNetworkConfiguration_begin L R cfg opts c =
            (if setActive opts then
               (case setActiveNetwork_begin ?i ?c2 of
                  (Inl e, c3) \<Rightarrow> (Inl e, c3)
                | (Inr p, c3) \<Rightarrow> (Inr (?i, p), c3))
             else (Inr (?i, None), ?c2))"
    using 1 2 3 4 5 6 by (simp add: upsertNetworkConfiguration_begin_def Let_def)
  have c2: "networkConfigurations (state ?c2) =
              AList.update ?i ?entry (networkConfigurations (state c))"
           "filter isTrackMetaMetricsEvent (trace ?c2) =
              filter isTrackMetaMetricsEvent (trace c) @
                (if ?old = None \<or> ?old = Some [] then [?ev] else [])"
    by simp_all
  have "i = ?i \<and> networkConfigurations (state c') = networkConfigurations (state ?c2)
        \<and> filter isTrackMetaMetricsEvent (trace c') = filter isTrackMetaMetricsEvent (trace ?c2)"
  proof (cases "setActive opts")
    case False
    with assms u show ?thesis by simp
  next
    case True
    obtain r c3 where s: "setActiveNetwork_begin ?i ?c2 = (r, c3)"
      by (cases "setActiveNetwork_begin ?i ?c2")
    with assms u True obtain p where "r = Inr p" "i = ?i" "c' = c3"
      by (cases r) auto
    moreover have "c3 = snd (setActiveNetwork_begin ?i ?c2)" using s by simp
    ultimately show ?thesis by (simp add: setActiveNetwork_begin_kept)
  qed
  with c2 show ?thesis
    by (intro that [of chainId url ticker]) (simp_all add: 1 3 5)
qed


lemma registryOK_lookup:
  assumes "registryOK regs" and "n \<in> snd ` set regs"
  shows "map_of regs (nc_id n) = Some n" and "nc_id n \<noteq> []"
proof -
  from assms(2) obtain k where k: "(k, n) \<in> set regs" by auto
  from assms(1) k have "nc_id n = k \<and> k \<noteq> []"
    by (auto simp: registryOK_def list_all_iff)
  moreover from assms(1) k have "map_of regs k = Some n"
    by (simp add: registryOK_def)
  ultimately show "map_of regs (nc_id n) = Some n" and "nc_id n \<noteq> []" by simp_all
qed

lemma findByRpcUrl_Some:
  "findByRpcUrl L url regs = Some n \<Longrightarrow>
     n \<in> snd ` set regs \<and> map_option (toLowerCase L) (nc_rpcUrl n) = Some (toLowerCase L url)"
  by (auto simp: findByRpcUrl_def find_Some_iff)

lemma findByRpcUrl_None:
  "findByRpcUrl L url regs = None \<longleftrightarrow>
     \<not> (\<exists>n \<in> snd ` set regs. map_option (toLowerCase L) (nc_rpcUrl n) = Some (toLowerCase L url))"
  by (auto simp: findByRpcUrl_def find_None_iff)

lemma update_append: "k \<notin> fst ` set al \<Longrightarrow> AList.update k v al = al @ [(k, v)]"
  by (induction al) auto

lemma list_all_update:
  "list_all Q al \<Longrightarrow> Q (k, v) \<Longrightarrow> list_all Q (AList.update k v al)"
  by (induction al) auto

lemma registryOK_update:
  "registryOK regs \<Longrightarrow> nc_id v = k \<Longrightarrow> k \<noteq> [] \<Longrightarrow> registryOK (AList.update k v regs)"
  by (simp add: registryOK_def distinct_update list_all_update)

lemma registryOK_delete: "registryOK regs \<Longrightarrow> registryOK (AList.delete k regs)"
proof -
  assume ok: "registryOK regs"
  then have "distinct (map fst (AList.delete k regs))"
    by (simp add: registryOK_def distinct_delete)
  moreover have "list_all (\<lambda>(k, n). nc_id n = k \<and> k \<noteq> []) (AList.delete k regs)"
    using ok by (auto simp: registryOK_def AList.delete_eq list_all_iff)
  ultimately show ?thesis by (simp add: registryOK_def)
qed

lemma registryOK_defaultState: "registryOK (networkConfigurations defaultState)"
  by (simp add: registryOK_def defaultState_def)

lemma registryOK_removeNetworkConfiguration:
  "registryOK (networkConfigurations (state c)) \<Longrightarrow>
     registryOK (networkConfigurations (state (snd (removeNetworkConfiguration i c))))"
  by (simp add: removeNetworkConfiguration_def registryOK_delete split: Property.splits)

text \<open>
  C8, as the code has it. The registry holds one entry per key, each under a key that
  is its own non-empty id. A call of \<open>upsertNetworkConfiguration\<close> that passes
  validation returns the identifier \<open>i\<close>, whatever the library's \<open>toLowerCase\<close>
  does. When some entry has the given URL up to letter case, \<open>i\<close> is the id of such an
  entry, the registry keeps its keys, their order and its size, the entry under \<open>i\<close>
  now has the given fields, every other entry is as before and no tracking event is
  sent. When no entry has that URL, \<open>i\<close> is the freshly generated identifier, the new
  entry is stored under it (at the end, when the identifier is not in use), every other
  entry is as before and exactly one tracking event is sent. In both cases the registry
  keeps its shape, given that the generated identifier is not empty.
\<close>

theorem upsert_updates_in_place_or_inserts:
  assumes "upsertNetworkConfiguration_begin L R cfg opts c = (Inr (i, po), c')"
    and "registryOK (networkConfigurations (state c))"
    and "nc_rpcUrl cfg = Some url"
  shows "((\<exists>n \<in> snd ` set (networkConfigurations (state c)).
             map_option (toLowerCase L) (nc_rpcUrl n) = Some (toLowerCase L url)) \<longrightarrow>
           (\<exists>n. map_of (networkConfigurations (state c)) i = Some n
                \<and> map_option (toLowerCase L) (nc_rpcUrl n) = Some (toLowerCase L url))
           \<and> map fst (networkConfigurations (state c')) = map fst (networkConfigurations (state c))
           \<and> length (networkConfigurations (state c')) = length (networkConfigurations (state c))
           \<and> map_of (networkConfigurations (state c')) i = Some (cfg\<lparr> nc_id := i \<rparr>)
           \<and> (\<forall>k. k \<noteq> i \<longrightarrow> map_of (networkConfigurations (state c')) k
                                 = map_of (networkConfigurations (state c)) k)
           \<and> filter isTrackMetaMetricsEvent (trace c') = filter isTrackMetaMetricsEvent (trace c))
       \<and> (\<not> (\<exists>n \<in> snd ` set (networkConfigurations (state c)).
               map_option (toLowerCase L) (nc_rpcUrl n) = Some (toLowerCase L url)) \<longrightarrow>
           i = R
           \<and> map_of (networkConfigurations (state c')) R = Some (cfg\<lparr> nc_id := R \<rparr>)
           \<and> (\<forall>k. k \<noteq> R \<longrightarrow> map_of (networkConfigurations (state c')) k
                                 = map_of (networkConfigurations (state c)) k)
           \<and> (R \<notin> fst ` set (networkConfigurations (state c)) \<longrightarrow>
                networkConfigurations (state c')
                  = networkConfigurations (state c) @ [(R, cfg\<lparr> nc_id := R \<rparr>)])
           \<and> (\<exists>ev. filter isTrackMetaMetricsEvent (trace c')
                      = filter isTrackMetaMetricsEvent (trace c) @ [TrackMetaMetricsEvent ev]))
       \<and> (R \<noteq> [] \<longrightarrow> registryOK (networkConfigurations (state c')))"
proof -
  let ?regs = "networkConfigurations (state c)"
  let ?old = "map_option nc_id (findByRpcUrl L url ?regs)"
  from assms(1) obtain chainId url' ticker where ok:
    "nc_chainId cfg = Some chainId" "nc_rpcUrl cfg = Some url'" "nc_ticker cfg = Some ticker"
    "i = (case map_option nc_id (findByRpcUrl L url' ?regs) of
            None \<Rightarrow> R | Some j \<Rightarrow> if j = [] then R else j)"
    "networkConfigurations (state c') =
       AList.update i
         \<lparr> nc_rpcUrl = Some url', nc_chainId = Some chainId, nc_ticker = Some ticker,
           nc_nickname = nc_nickname cfg, nc_rpcPrefs = nc_rpcPrefs cfg, nc_id = i \<rparr> ?regs"
    "filter isTrackMetaMetricsEvent (trace c') =
       filter isTrackMetaMetricsEvent (trace c) @
         (if map_option nc_id (findByRpcUrl L url' ?regs) = None
             \<or> map_option nc_id (findByRpcUrl L url' ?regs) = Some []
          then [TrackMetaMetricsEvent
                  \<lparr> mm_event = ''Custom Network Added'', mm_category = ''Network'',
                    mm_referrer = referrer opts, mm_chain_id = chainId, mm_symbol = ticker,
                    mm_source = source opts \<rparr>]
          else [])"
    by (rule upsertNetworkConfiguration_begin_ok)
  from ok(2) assms(3) have [simp]: "url' = url" by simp
  have entry: "\<lparr> nc_rpcUrl = Some url', nc_chainId = Some chainId, nc_ticker = Some ticker,
           nc_nickname = nc_nickname cfg, nc_rpcPrefs = nc_rpcPrefs cfg, nc_id = i \<rparr>
           = cfg\<lparr> nc_id := i \<rparr>"
    using ok(1,3) assms(3) by simp
  have regs': "networkConfigurations (state c') = AList.update i (cfg\<lparr> nc_id := i \<rparr>) ?regs"
    using ok(5) unfolding entry .
  have m: "map_of (networkConfigurations (state c')) = (map_of ?regs)(i \<mapsto> cfg\<lparr> nc_id := i \<rparr>)"
    by (simp add: regs' update_conv')
  show ?thesis
  proof (intro conjI impI)
    assume ex: "\<exists>n \<in> snd ` set ?regs. map_option (toLowerCase L) (nc_rpcUrl n) = Some (toLowerCase L url)"
    then obtain n0 where f: "findByRpcUrl L url ?regs = Some n0"
      using findByRpcUrl_None [of L url ?regs] by (cases "findByRpcUrl L url ?regs") auto
    note n0 = findByRpcUrl_Some [OF f]
    from n0 have l: "map_of ?regs (nc_id n0) = Some n0" "nc_id n0 \<noteq> []"
      using registryOK_lookup [OF assms(2)] by simp_all
    have i: "i = nc_id n0" using ok(4) f l(2) by simp
    show "\<exists>n. map_of ?regs i = Some n
                \<and> map_option (toLowerCase L) (nc_rpcUrl n) = Some (toLowerCase L url)"
      using l(1) n0 i by auto
    have mem: "i \<in> set (map fst ?regs)"
      using map_of_SomeD [OF l(1)] i by (force simp: image_iff)
    show k: "map fst (networkConfigurations (state c')) = map fst ?regs"
      by (simp add: regs' update_keys mem del: set_map)
    show "length (networkConfigurations (state c')) = length ?regs"
      using arg_cong [OF k, of length] by simp
    show "map_of (networkConfigurations (state c')) i = Some (cfg\<lparr> nc_id := i \<rparr>)"
      by (simp add: m)
    show "\<forall>k. k \<noteq> i \<longrightarrow> map_of (networkConfigurations (state c')) k = map_of ?regs k"
      by (simp add: m)
    show "filter isTrackMetaMetricsEvent (trace c') = filter isTrackMetaMetricsEvent (trace c)"
      using ok(6) f l(2) by simp
  next
    assume nex: "\<not> (\<exists>n \<in> snd ` set ?regs.
                      map_option (toLowerCase L) (nc_rpcUrl n) = Some (toLowerCase L url))"
    then have f: "findByRpcUrl L url ?regs = None"
      by (simp add: findByRpcUrl_None)
    show i: "i = R" using ok(4) f by simp
    show "map_of (networkConfigurations (state c')) R = Some (cfg\<lparr> nc_id := R \<rparr>)"
      using m i by simp
    show "\<forall>k. k \<noteq> R \<longrightarrow> map_of (networkConfigurations (state c')) k = map_of ?regs k"
      using m i by simp
    show "networkConfigurations (state c') = ?regs @ [(R, cfg\<lparr> nc_id := R \<rparr>)]"
      if "R \<notin> fst ` set ?regs"
      using that regs' i by (simp add: update_append)
    show "\<exists>ev. filter isTrackMetaMetricsEvent (trace c')
                 = filter isTrackMetaMetricsEvent (trace c) @ [TrackMetaMetricsEvent ev]"
      using ok(6) f by simp
  next
    assume R: "R \<noteq> []"
    have "i \<noteq> []"
    proof (cases "findByRpcUrl L url ?regs")
      case None
      with ok(4) R show ?thesis by simp
    next
      case (Some n0)
      with ok(4) R show ?thesis by (simp split: if_splits)
    qed
    then show "registryOK (networkConfigurations (state c'))"
      unfolding regs' using assms(2) by (intro registryOK_update) simp_all
  qed
qed

lemma registryController_run:
  "networkConfigurations (state registryController)
     = [(''testNetworkConfigurationId'', exampleConfiguration)]"
  "trace registryController = []"
  by (simp_all add: registryController_def exampleController_def)

lemmas upsert_eval =
  upsertNetworkConfiguration_begin_def Let_def sameUrlConfiguration_def
  otherUrlConfiguration_def exampleUpsertOptions_def exampleConfiguration_def
  isStrictHexString_def isHexString_def isSafeChainId_def hexToNat_def hexDigitValue_def MAX_SAFE_CHAIN_ID_def
  findByRpcUrl_def exampleLibrary_def asciiLowerCase_def registryController_run

theorem upsert_updates_in_place_or_inserts_witness:
  "registryOK (networkConfigurations (state registryController))
   \<and> fst (upsertNetworkConfiguration_begin exampleLibrary ''generated-id'' sameUrlConfiguration
           exampleUpsertOptions registryController)
       = Inr (''testNetworkConfigurationId'', None)
   \<and> length (networkConfigurations (state (snd
        (upsertNetworkConfiguration_begin exampleLibrary ''generated-id'' sameUrlConfiguration
           exampleUpsertOptions registryController)))) = 1
   \<and> map_of (networkConfigurations (state (snd
        (upsertNetworkConfiguration_begin exampleLibrary ''generated-id'' sameUrlConfiguration
           exampleUpsertOptions registryController)))) ''testNetworkConfigurationId''
       = Some (sameUrlConfiguration\<lparr> nc_id := ''testNetworkConfigurationId'' \<rparr>)
   \<and> filter isTrackMetaMetricsEvent (trace (snd
        (upsertNetworkConfiguration_begin exampleLibrary ''generated-id'' sameUrlConfiguration
           exampleUpsertOptions registryController))) = []
   \<and> fst (upsertNetworkConfiguration_begin exampleLibrary ''generated-id'' otherUrlConfiguration
           exampleUpsertOptions registryController)
       = Inr (''generated-id'', None)
   \<and> networkConfigurations (state (snd
        (upsertNetworkConfiguration_begin exampleLibrary ''generated-id'' otherUrlConfiguration
           exampleUpsertOptions registryController)))
       = [(''testNetworkConfigurationId'', exampleConfiguration),
          (''generated-id'', otherUrlConfiguration\<lparr> nc_id := ''generated-id'' \<rparr>)]
   \<and> (\<exists>ev. filter isTrackMetaMetricsEvent (trace (snd
        (upsertNetworkConfiguration_begin exampleLibrary ''generated-id'' otherUrlConfiguration
           exampleUpsertOptions registryController))) = [TrackMetaMetricsEvent ev])
   \<and> registryOK (networkConfigurations (state (snd
        (upsertNetworkConfiguration_begin exampleLibrary ''generated-id'' otherUrlConfiguration
           exampleUpsertOptions registryController))))"
proof -
  let ?a = "upsertNetworkConfiguration_begin exampleLibrary ''generated-id'' sameUrlConfiguration
              exampleUpsertOptions registryController"
  let ?b = "upsertNetworkConfiguration_begin exampleLibrary ''generated-id'' otherUrlConfiguration
              exampleUpsertOptions registryController"
  have ok: "registryOK (networkConfigurations (state registryController))"
    by (simp add: registryOK_def registryController_run exampleConfiguration_def)
  have fa: "fst ?a = Inr (''testNetworkConfigurationId'', None)"
    by (simp add: upsert_eval)
  have fb: "fst ?b = Inr (''generated-id'', None)"
    by (simp add: upsert_eval)
  have ha: "?a = (Inr (''testNetworkConfigurationId'', None), snd ?a)"
    using fa by (simp add: prod_eq_iff)
  have hb: "?b = (Inr (''generated-id'', None), snd ?b)"
    using fb by (simp add: prod_eq_iff)
  have ua: "nc_rpcUrl sameUrlConfiguration = Some ''HTTPS://MOCK-RPC-URL''"
    by (simp add: sameUrlConfiguration_def)
  have ub: "nc_rpcUrl otherUrlConfiguration = Some ''https://x''"
    by (simp add: otherUrlConfiguration_def)
  have ma: "\<exists>n \<in> snd ` set (networkConfigurations (state registryController)).
              map_option (toLowerCase exampleLibrary) (nc_rpcUrl n) = Some (toLowerCase exampleLibrary ''HTTPS://MOCK-RPC-URL'')"
    by (simp add: registryController_run exampleConfiguration_def exampleLibrary_def asciiLowerCase_def)
  have mb: "\<not> (\<exists>n \<in> snd ` set (networkConfigurations (state registryController)).
              map_option (toLowerCase exampleLibrary) (nc_rpcUrl n) = Some (toLowerCase exampleLibrary ''https://x''))"
    by (simp add: registryController_run exampleConfiguration_def exampleLibrary_def asciiLowerCase_def)
  have nb: "''generated-id'' \<notin> fst ` set (networkConfigurations (state registryController))"
    by (simp add: registryController_run)
  note ta = upsert_updates_in_place_or_inserts [OF ha ok ua, THEN conjunct1, rule_format, OF ma]
  note tb = upsert_updates_in_place_or_inserts
              [OF hb ok ub, THEN conjunct2, THEN conjunct1, rule_format, OF mb]
  have "''generated-id'' \<noteq> []" by simp
  note tc = upsert_updates_in_place_or_inserts
              [OF hb ok ub, THEN conjunct2, THEN conjunct2, rule_format, OF this]
  from ta tb tc nb ok fa fb show ?thesis
    by (simp add: registryController_run)
qed

text \<open>
  C8, as stated for every registry, fails: the constructor accepts a registry whose
  entry is stored under a key other than its \<open>id\<close>. The given URL is that entry's URL
  up to letter case, yet the call writes under the entry's \<open>id\<close>: the registry grows
  from one entry to two and the entry that matched keeps the fields it had.
\<close>

theorem upsert_misKeyed_registry_counterexample:
  "networkConfigurations (state misKeyedController)
     = [(''testNetworkConfiguration'', exampleConfiguration)]
   \<and> nc_rpcUrl sameUrlConfiguration = Some ''HTTPS://MOCK-RPC-URL''
   \<and> map_option (toLowerCase exampleLibrary) (nc_rpcUrl exampleConfiguration)
       = Some (toLowerCase exampleLibrary ''HTTPS://MOCK-RPC-URL'')
   \<and> fst (upsertNetworkConfiguration_begin exampleLibrary ''generated-id'' sameUrlConfiguration
           exampleUpsertOptions misKeyedController)
       = Inr (''testNetworkConfigurationId'', None)
   \<and> networkConfigurations (state (snd
        (upsertNetworkConfiguration_begin exampleLibrary ''generated-id'' sameUrlConfiguration
           exampleUpsertOptions misKeyedController)))
       = [(''testNetworkConfiguration'', exampleConfiguration),
          (''testNetworkConfigurationId'',
           sameUrlConfiguration\<lparr> nc_id := ''testNetworkConfigurationId'' \<rparr>)]
   \<and> length (networkConfigurations (state (snd
        (upsertNetworkConfiguration_begin exampleLibrary ''generated-id'' sameUrlConfiguration
           exampleUpsertOptions misKeyedController))))
       \<noteq> length (networkConfigurations (state misKeyedController))"
proof -
  have r: "networkConfigurations (state misKeyedController)
             = [(''testNetworkConfiguration'', exampleConfiguration)]"
    by (simp add: misKeyedController_def exampleController_def)
  have u: "nc_rpcUrl sameUrlConfiguration = Some ''HTTPS://MOCK-RPC-URL''"
    by (simp add: sameUrlConfiguration_def)
  have l: "map_option (toLowerCase exampleLibrary) (nc_rpcUrl exampleConfiguration)
             = Some (toLowerCase exampleLibrary ''HTTPS://MOCK-RPC-URL'')"
    by (simp add: exampleConfiguration_def exampleLibrary_def asciiLowerCase_def)
  have f: "fst (upsertNetworkConfiguration_begin exampleLibrary ''generated-id''
                  sameUrlConfiguration exampleUpsertOptions misKeyedController)
             = Inr (''testNetworkConfigurationId'', None)"
    by (simp add: upsertNetworkConfiguration_begin_def Let_def sameUrlConfiguration_def
          exampleUpsertOptions_def exampleConfiguration_def isStrictHexString_def
          isHexString_def isSafeChainId_def hexToNat_def hexDigitValue_def
          MAX_SAFE_CHAIN_ID_def findByRpcUrl_def exampleLibrary_def asciiLowerCase_def r)
  have s: "networkConfigurations (state (snd
        (upsertNetworkConfiguration_begin exampleLibrary ''generated-id'' sameUrlConfiguration
           exampleUpsertOptions misKeyedController)))
       = [(''testNetworkConfiguration'', exampleConfiguration),
          (''testNetworkConfigurationId'',
           sameUrlConfiguration\<lparr> nc_id := ''testNetworkConfigurationId'' \<rparr>)]"
    by (simp add: upsertNetworkConfiguration_begin_def Let_def sameUrlConfiguration_def
          exampleUpsertOptions_def exampleConfiguration_def isStrictHexString_def
          isHexString_def isSafeChainId_def hexToNat_def hexDigitValue_def
          MAX_SAFE_CHAIN_ID_def findByRpcUrl_def exampleLibrary_def asciiLowerCase_def r)
  show ?thesis
    unfolding s using r u l f by simp
qed

end
